theory Spec2Isabelle
  imports Main "HOL-Library.Sublist" "HOL-Library.AList"
begin

section \<open>The persistent emulator session manager (agent_android/emulator.py)\<close>

text \<open>
  The development embeds \<^verbatim>\<open>EmulatorManager\<close> of \<^verbatim>\<open>emulator.py\<close>: the session store on
  disk, the registry of running instances, the port allocator, start/stop and the
  snapshot operations. Python exceptions are values of the type \<open>error\<close>; an operation
  that mutates the manager or the disk returns its outcome together with the state it
  leaves behind, so that the effects of a call that raises stay visible.

  External programs (adb, emulator, sdkmanager, avdmanager, aapt), the clock and the TCP
  stack are not part of the repository. They enter the model as an environment \<open>env\<close>
  of observations. The failure outcomes that the source itself anticipates are modelled
  (a non-zero return code, \<^verbatim>\<open>TimeoutExpired\<close> where a timeout is passed, \<^verbatim>\<open>OSError\<close> on
  \<^verbatim>\<open>bind\<close>, any exception inside the \<^verbatim>\<open>aapt\<close> block); apart from those the SDK tools are
  taken to be installed and to run.
\<close>

subsection \<open>Exceptions\<close>

datatype error =
    AlreadyExists         \<comment> \<open>\<^verbatim>\<open>ValueError("Session ... already exists")\<close>\<close>
  | SessionRunning        \<comment> \<open>\<^verbatim>\<open>RuntimeError("Session ... is running. Stop it first or use force=True")\<close>\<close>
  | SessionNotRunning     \<comment> \<open>\<^verbatim>\<open>RuntimeError("Session ... is not running")\<close>\<close>
  | ResourceExhausted     \<comment> \<open>\<^verbatim>\<open>RuntimeError("No available emulator ports")\<close>\<close>
  | ProvisioningError     \<comment> \<open>\<^verbatim>\<open>RuntimeError("Failed to install system image ...")\<close>, \<^verbatim>\<open>"Failed to create AVD ..."\<close>\<close>
  | BootTimeout           \<comment> \<open>\<^verbatim>\<open>RuntimeError("Emulator failed to boot within ...")\<close>\<close>
  | KeyError
  | TypeError
  | JSONDecodeError
  | FileExistsError
  | FileNotFoundError
  | NotADirectoryError
  | IsADirectoryError
  | SameFileError
  | AddressInUse          \<comment> \<open>\<^verbatim>\<open>OSError\<close>, errno EADDRINUSE\<close>
  | InvalidArgument       \<comment> \<open>\<^verbatim>\<open>OSError\<close>, errno EINVAL\<close>

subsection \<open>Python strings\<close>

text \<open>\<^verbatim>\<open>str(n)\<close> for an integer: decimal digits, a minus sign for a negative number.\<close>

definition digit_char :: "nat \<Rightarrow> char" where
  "digit_char d = ''0123456789'' ! d"

function str_nat :: "nat \<Rightarrow> string" where
  "str_nat n = (if n < 10 then [digit_char n] else str_nat (n div 10) @ [digit_char (n mod 10)])"
  by pat_completeness auto
termination
  by (relation "measure id") auto

declare str_nat.simps [simp del]

definition str_int :: "int \<Rightarrow> string" where
  "str_int i = (if i < 0 then CHR ''-'' # str_nat (nat (- i)) else str_nat (nat i))"

text \<open>\<^verbatim>\<open>f"emulator-{port}"\<close>\<close>

definition serial_of :: "int \<Rightarrow> string" where
  "serial_of p = ''emulator-'' @ str_int p"

text \<open>\<^verbatim>\<open>sub in s\<close>, \<^verbatim>\<open>s.startswith(p)\<close>\<close>

definition contains :: "string \<Rightarrow> string \<Rightarrow> bool" where
  "contains sub s = sublist sub s"

definition startswith :: "string \<Rightarrow> string \<Rightarrow> bool" where
  "startswith s p = prefix p s"

text \<open>
  \<^verbatim>\<open>s.split(sep)\<close> for a non-empty separator: the pieces between the non-overlapping
  occurrences of \<open>sep\<close>, found from the left. \<open>acc\<close> holds the current piece reversed.
\<close>

function split_acc :: "string \<Rightarrow> string \<Rightarrow> string \<Rightarrow> string list" where
  "split_acc sep acc [] = [rev acc]"
| "split_acc sep acc (c # cs) =
     (if sep \<noteq> [] \<and> prefix sep (c # cs)
      then rev acc # split_acc sep [] (drop (length sep) (c # cs))
      else split_acc sep (c # acc) cs)"
  by pat_completeness auto
termination
  by (relation "measure (\<lambda>(sep, acc, s). length s)") auto

definition split_on :: "string \<Rightarrow> string \<Rightarrow> string list" where
  "split_on sep s = split_acc sep [] s"

text \<open>
  Whitespace as \<^verbatim>\<open>str.isspace\<close> sees it on the code points below 256: tab, line feed,
  vertical tab, form feed, carriage return, the separators 28 to 31, space, NEL (133)
  and the no-break space (160).
\<close>

definition is_space :: "char \<Rightarrow> bool" where
  "is_space c = (of_char c \<in> {9, 10, 11, 12, 13, 28, 29, 30, 31, 32, 133, 160 :: nat})"

text \<open>\<^verbatim>\<open>s.strip()\<close>\<close>

definition strip :: "string \<Rightarrow> string" where
  "strip s = rev (dropWhile is_space (rev (dropWhile is_space s)))"

text \<open>\<^verbatim>\<open>s.split()\<close>: the maximal runs of non-whitespace characters.\<close>

function split_ws :: "string \<Rightarrow> string list" where
  "split_ws s =
     (case dropWhile is_space s of
        [] \<Rightarrow> []
      | c # cs \<Rightarrow> takeWhile (\<lambda>x. \<not> is_space x) (c # cs)
                 # split_ws (dropWhile (\<lambda>x. \<not> is_space x) (c # cs)))"
  by pat_completeness auto
termination
proof (relation "measure length")
  show "wf (measure length)" by simp
next
  fix s :: string and c cs
  assume d: "dropWhile is_space s = c # cs"
  have "\<not> is_space c" using d by (metis hd_dropWhile list.sel(1) list.distinct(1))
  then have "length (dropWhile (\<lambda>x. \<not> is_space x) (c # cs)) \<le> length cs"
    by (simp add: length_dropWhile_le)
  moreover have "length (c # cs) \<le> length s"
    using d by (metis length_dropWhile_le)
  ultimately show "(dropWhile (\<lambda>x. \<not> is_space x) (c # cs), s) \<in> measure length"
    by simp
qed

declare split_ws.simps [simp del]

subsection \<open>Port allocator\<close>

text \<open>
  A TCP socket as \<^verbatim>\<open>_find_available_port\<close> uses it: created unbound, then bound.
  \<^verbatim>\<open>socket.bind\<close> requires a socket that is not bound yet ("The socket must not already
  be bound", in the words of the library reference): the operating system refuses
  \<^verbatim>\<open>bind\<close> on a socket that already has a local address (errno EINVAL) and on an
  address that is in use (errno EADDRINUSE), and Python raises \<^verbatim>\<open>OSError\<close> for both.
  \<open>in_use\<close> says which ports of the host are taken.
\<close>

record socket =
  bound_to :: "int option"

definition new_socket :: socket where
  "new_socket = \<lparr>bound_to = None\<rparr>"

definition bind :: "(int \<Rightarrow> bool) \<Rightarrow> socket \<Rightarrow> int \<Rightarrow> error + socket" where
  "bind in_use s p =
     (if bound_to s \<noteq> None then Inl InvalidArgument
      else if in_use p then Inl AddressInUse
      else Inr (s\<lparr>bound_to := Some p\<rparr>))"

text \<open>
  The body of the loop for one candidate:
  \<^verbatim>\<open>
  with socket.socket(socket.AF_INET, socket.SOCK_STREAM) as s:
      try:
          s.bind(("localhost", port))
          s.bind(("localhost", port + 1))  # Console port
          return port
      except OSError:
          continue
  \<close>
  Both calls are made on the one socket \<open>s\<close>. The result is whether \<^verbatim>\<open>return port\<close> is
  reached.
\<close>

definition probe :: "(int \<Rightarrow> bool) \<Rightarrow> int \<Rightarrow> bool" where
  "probe in_use port =
     (case bind in_use new_socket port of
        Inl e \<Rightarrow> False
      | Inr s \<Rightarrow>
          (case bind in_use s (port + 1) of
             Inl e \<Rightarrow> False
           | Inr s' \<Rightarrow> True))"

text \<open>\<^verbatim>\<open>range(start, stop, step)\<close> for a positive step.\<close>

definition py_range :: "int \<Rightarrow> int \<Rightarrow> int \<Rightarrow> int list" where
  "py_range start stop step =
     map (\<lambda>k. start + step * int k) [0 ..< nat ((stop - start + step - 1) div step)]"

fun scan_ports :: "(int \<Rightarrow> bool) \<Rightarrow> int list \<Rightarrow> int list \<Rightarrow> int option" where
  "scan_ports in_use used_ports [] = None"
| "scan_ports in_use used_ports (port # rest) =
     (if port \<in> set used_ports then scan_ports in_use used_ports rest
      else if probe in_use port then Some port
      else scan_ports in_use used_ports rest)"

text \<open>\<open>ports\<close> is the registry \<^verbatim>\<open>self._ports\<close>, session id to port, in insertion order.\<close>

definition find_available_port :: "(int \<Rightarrow> bool) \<Rightarrow> (string \<times> int) list \<Rightarrow> error + int" where
  "find_available_port in_use ports =
     (case scan_ports in_use (map snd ports) (py_range 5554 5682 2) of
        None \<Rightarrow> Inl ResourceExhausted
      | Some port \<Rightarrow> Inr port)"

subsection \<open>File system\<close>

text \<open>
  A path is the list of its components below the root; the file system maps a path to
  the node found there. \<^verbatim>\<open>metadata.json\<close> is opened in text mode and handled only through
  \<^verbatim>\<open>json.dump\<close> and \<^verbatim>\<open>json.load\<close>: a file that holds a JSON document is modelled by the
  document itself (\<open>Document\<close>), every other file by its raw bytes (\<open>Raw\<close>). An object
  is the list of its members in order, as a Python \<^verbatim>\<open>dict\<close> keeps them.
\<close>

type_synonym path = "string list"

datatype json =
    JNull
  | JBool bool
  | JNumber int
  | JString string
  | JArray "json list"
  | JObject "(string \<times> json) list"

datatype content = Raw string | Document json

datatype node = Dir | File content

type_synonym filesystem = "path \<Rightarrow> node option"

text \<open>\<^verbatim>\<open>Path.exists()\<close>, \<^verbatim>\<open>Path.is_dir()\<close>\<close>

definition path_exists :: "filesystem \<Rightarrow> path \<Rightarrow> bool" where
  "path_exists t p = (t p \<noteq> None)"

definition is_dir :: "filesystem \<Rightarrow> path \<Rightarrow> bool" where
  "is_dir t p = (t p = Some Dir)"

definition is_file :: "filesystem \<Rightarrow> path \<Rightarrow> bool" where
  "is_file t p = (case t p of Some (File c) \<Rightarrow> True | _ \<Rightarrow> False)"

text \<open>
  \<^verbatim>\<open>os.mkdir(p)\<close>: EEXIST when the path exists, ENOTDIR when a component of the parent
  is a file, ENOENT when the parent is missing.
\<close>

definition os_mkdir :: "filesystem \<Rightarrow> path \<Rightarrow> error + filesystem" where
  "os_mkdir t p =
     (if t p \<noteq> None then Inl FileExistsError
      else if list_ex (is_file t) (prefixes (butlast p)) then Inl NotADirectoryError
      else if t (butlast p) = Some Dir then Inr (t(p \<mapsto> Dir))
      else Inl FileNotFoundError)"

text \<open>
  \<^verbatim>\<open>Path.mkdir(parents, exist_ok)\<close>, as pathlib writes it:
  \<^verbatim>\<open>
  try:
      os.mkdir(self, mode)
  except FileNotFoundError:
      if not parents or self.parent == self:
          raise
      self.parent.mkdir(parents=True, exist_ok=True)
      self.mkdir(mode, parents=False, exist_ok=exist_ok)
  except OSError:
      if not exist_ok or not self.is_dir():
          raise
  \<close>
\<close>

function path_mkdir :: "filesystem \<Rightarrow> path \<Rightarrow> bool \<Rightarrow> bool \<Rightarrow> error + filesystem" where
  "path_mkdir t p parents exist_ok =
     (case os_mkdir t p of
        Inr t' \<Rightarrow> Inr t'
      | Inl e \<Rightarrow>
          if e = FileNotFoundError then
            (if \<not> parents \<or> p = [] then Inl e
             else (case path_mkdir t (butlast p) True True of
                     Inl e' \<Rightarrow> Inl e'
                   | Inr t1 \<Rightarrow> path_mkdir t1 p False exist_ok))
          else if \<not> exist_ok \<or> \<not> is_dir t p then Inl e
          else Inr t)"
  by pat_completeness auto
termination
  by (relation "measure (\<lambda>(t, p, parents, exist_ok). 2 * length p + (if parents then 1 else 0))")
     auto

declare path_mkdir.simps [simp del]

text \<open>\<^verbatim>\<open>open(p, "w")\<close> followed by writing \<open>c\<close>; \<^verbatim>\<open>open(p)\<close> followed by reading.\<close>

definition write_file :: "filesystem \<Rightarrow> path \<Rightarrow> content \<Rightarrow> error + filesystem" where
  "write_file t p c =
     (if t p = Some Dir then Inl IsADirectoryError
      else if list_ex (is_file t) (prefixes (butlast p)) then Inl NotADirectoryError
      else if t (butlast p) = Some Dir then Inr (t(p \<mapsto> File c))
      else Inl FileNotFoundError)"

definition read_file :: "filesystem \<Rightarrow> path \<Rightarrow> error + content" where
  "read_file t p =
     (case t p of
        None \<Rightarrow> Inl FileNotFoundError
      | Some Dir \<Rightarrow> Inl IsADirectoryError
      | Some (File c) \<Rightarrow> Inr c)"

text \<open>
  \<^verbatim>\<open>shutil.copy(src, dst)\<close>: into \<open>dst\<close> under the name of \<open>src\<close> when \<open>dst\<close> is a directory,
  onto \<open>dst\<close> otherwise; the same file on both sides is refused.
\<close>

definition shutil_copy :: "filesystem \<Rightarrow> path \<Rightarrow> path \<Rightarrow> error + filesystem" where
  "shutil_copy t src dst =
     (let target = (if is_dir t dst then dst @ (if src = [] then [] else [last src]) else dst) in
      if src = target \<and> path_exists t src then Inl SameFileError
      else (case read_file t src of
              Inl e \<Rightarrow> Inl e
            | Inr c \<Rightarrow> write_file t target c))"

text \<open>\<^verbatim>\<open>shutil.rmtree(p)\<close>: the directory and everything below it.\<close>

definition rmtree :: "filesystem \<Rightarrow> path \<Rightarrow> error + filesystem" where
  "rmtree t p =
     (case t p of
        None \<Rightarrow> Inl FileNotFoundError
      | Some (File c) \<Rightarrow> Inl NotADirectoryError
      | Some Dir \<Rightarrow> Inr (\<lambda>q. if prefix p q then None else t q))"

text \<open>
  A file system is a tree: the root is a directory and every other node sits in a
  directory.
\<close>

definition fs_tree :: "filesystem \<Rightarrow> bool" where
  "fs_tree t = (t [] = Some Dir \<and> (\<forall>p. p \<noteq> [] \<longrightarrow> t p \<noteq> None \<longrightarrow> t (butlast p) = Some Dir))"

subsection \<open>Configuration and session metadata\<close>

record EmulatorConfig =
  cfg_avd_name :: string
  cfg_system_image :: string
  device_profile :: string
  headless :: bool
  gpu :: string
  memory_mb :: int
  cores :: int
  sdcard_mb :: int
  port :: "int option"
  writable_system :: bool
  snapshot_on_exit :: bool

text \<open>\<^verbatim>\<open>EmulatorConfig()\<close>\<close>

definition default_config :: EmulatorConfig where
  "default_config =
     \<lparr>cfg_avd_name = ''base_pixel7_api34'',
      cfg_system_image = ''system-images;android-34;google_apis;x86_64'',
      device_profile = ''pixel_7'',
      headless = True,
      gpu = ''swiftshader_indirect'',
      memory_mb = 4096,
      cores = 4,
      sdcard_mb = 2048,
      port = None,
      writable_system = False,
      snapshot_on_exit = True\<rparr>"

text \<open>\<^verbatim>\<open>config or EmulatorConfig()\<close>: a dataclass instance is always true.\<close>

definition config_or_default :: "EmulatorConfig option \<Rightarrow> EmulatorConfig" where
  "config_or_default config = (case config of None \<Rightarrow> default_config | Some c \<Rightarrow> c)"

record SessionMetadata =
  session_id :: string
  created_at :: string
  last_accessed :: string
  avd_name :: string
  system_image :: string
  installed_packages :: "string list"
  snapshots :: "string list"
  md_notes :: string   \<comment> \<open>the field \<^verbatim>\<open>notes\<close>\<close>

text \<open>\<^verbatim>\<open>asdict(metadata)\<close>: the fields in declaration order.\<close>

definition asdict :: "SessionMetadata \<Rightarrow> json" where
  "asdict m =
     JObject
       [(''session_id'', JString (session_id m)),
        (''created_at'', JString (created_at m)),
        (''last_accessed'', JString (last_accessed m)),
        (''avd_name'', JString (avd_name m)),
        (''system_image'', JString (system_image m)),
        (''installed_packages'', JArray (map JString (installed_packages m))),
        (''snapshots'', JArray (map JString (snapshots m))),
        (''notes'', JString (md_notes m))]"

definition field_names :: "string list" where
  "field_names =
     [''session_id'', ''created_at'', ''last_accessed'', ''avd_name'', ''system_image'',
      ''installed_packages'', ''snapshots'', ''notes'']"

fun as_str :: "json \<Rightarrow> string option" where
  "as_str (JString s) = Some s"
| "as_str j = None"

fun as_str_list :: "json \<Rightarrow> string list option" where
  "as_str_list (JArray js) = those (map as_str js)"
| "as_str_list j = None"

text \<open>
  \<^verbatim>\<open>SessionMetadata(**data)\<close>. Python raises TypeError when \<open>data\<close> is not a mapping,
  has a key that is no field, or lacks one of the five fields without a default; the
  three last fields default to \<^verbatim>\<open>[]\<close>, \<^verbatim>\<open>[]\<close> and \<^verbatim>\<open>""\<close>. A dataclass does not check the
  types of the values; the record here is typed, so a document whose values do not
  have the annotated types is refused as well (\<open>save_metadata\<close> never writes one).
\<close>

definition from_dict :: "json \<Rightarrow> error + SessionMetadata" where
  "from_dict data =
     (case data of
        JObject kv \<Rightarrow>
          if \<not> list_all (\<lambda>k. k \<in> set field_names) (map fst kv) then Inl TypeError
          else
            (case (map_option as_str (map_of kv ''session_id''),
                   map_option as_str (map_of kv ''created_at''),
                   map_option as_str (map_of kv ''last_accessed''),
                   map_option as_str (map_of kv ''avd_name''),
                   map_option as_str (map_of kv ''system_image'')) of
               (Some (Some sid), Some (Some ca), Some (Some la), Some (Some avd), Some (Some img)) \<Rightarrow>
                 (case (case map_of kv ''installed_packages'' of None \<Rightarrow> Some [] | Some j \<Rightarrow> as_str_list j,
                        case map_of kv ''snapshots'' of None \<Rightarrow> Some [] | Some j \<Rightarrow> as_str_list j,
                        case map_of kv ''notes'' of None \<Rightarrow> Some [] | Some j \<Rightarrow> as_str j) of
                    (Some pkgs, Some snaps, Some nts) \<Rightarrow>
                      Inr \<lparr>session_id = sid, created_at = ca, last_accessed = la,
                           avd_name = avd, system_image = img,
                           installed_packages = pkgs, snapshots = snaps, md_notes = nts\<rparr>
                  | _ \<Rightarrow> Inl TypeError)
             | _ \<Rightarrow> Inl TypeError)
      | _ \<Rightarrow> Inl TypeError)"

text \<open>
  \<^verbatim>\<open>
  def _save_metadata(self, session_dir, metadata):
      metadata_file = session_dir / "metadata.json"
      with open(metadata_file, "w") as f:
          json.dump(asdict(metadata), f, indent=2)
  \<close>
\<close>

definition save_metadata :: "filesystem \<Rightarrow> path \<Rightarrow> SessionMetadata \<Rightarrow> error + filesystem" where
  "save_metadata t session_dir metadata =
     write_file t (session_dir @ [''metadata.json'']) (Document (asdict metadata))"

text \<open>
  \<^verbatim>\<open>
  def _load_metadata(self, session_dir):
      metadata_file = session_dir / "metadata.json"
      if metadata_file.exists():
          with open(metadata_file) as f:
              data = json.load(f)
              return SessionMetadata(**data)
      return None
  \<close>
\<close>

definition load_metadata :: "filesystem \<Rightarrow> path \<Rightarrow> error + SessionMetadata option" where
  "load_metadata t session_dir =
     (let metadata_file = session_dir @ [''metadata.json''] in
      if path_exists t metadata_file then
        (case read_file t metadata_file of
           Inl e \<Rightarrow> Inl e
         | Inr (Raw s) \<Rightarrow> Inl JSONDecodeError
         | Inr (Document data) \<Rightarrow>
             (case from_dict data of
                Inl e \<Rightarrow> Inl e
              | Inr m \<Rightarrow> Inr (Some m)))
      else Inr None)"

subsection \<open>The manager, the host and the environment\<close>

text \<open>
  \<open>state\<close> holds the manager object (\<^verbatim>\<open>data_dir\<close>, \<^verbatim>\<open>sdk_path\<close>, the registries
  \<^verbatim>\<open>_processes\<close> and \<^verbatim>\<open>_ports\<close> as association lists in insertion order) and the part of
  the host that the manager acts on: the file system, the commands run with
  \<^verbatim>\<open>subprocess.run\<close> (\<open>log\<close>), the command lines started with \<^verbatim>\<open>subprocess.Popen\<close>
  (\<open>launched\<close>; the handle of a process is its index there), the processes that have
  exited and those that were killed with SIGKILL.
\<close>

record state =
  data_dir :: path
  sdk_path :: path
  processes :: "(string \<times> nat) list"
  ports :: "(string \<times> int) list"
  fs :: filesystem
  log :: "string list list"
  launched :: "string list list"
  exited :: "nat set"
  killed :: "nat set"

text \<open>The result of \<^verbatim>\<open>subprocess.run(..., capture_output=True, text=True)\<close>.\<close>

record completed =
  returncode :: int
  stdout :: string
  stderr :: string

text \<open>
  What the outside world answers during one call: the result of each command line,
  whether a process exits within the 30 seconds that \<open>stop\<close> waits, the verdict of the
  two poll loops of \<^verbatim>\<open>_wait_for_boot\<close> (they depend on the wall clock and on the device
  bridge), the successive readings of \<^verbatim>\<open>datetime.now().isoformat()\<close>, the TCP ports in
  use, and whether \<^verbatim>\<open>aapt\<close> can be executed.
\<close>

record env =
  run :: "string list \<Rightarrow> completed"
  exits_in_time :: "nat \<Rightarrow> bool"
  boot_completes :: "string \<Rightarrow> int \<Rightarrow> bool"
  now :: "nat \<Rightarrow> string"
  port_in_use :: "int \<Rightarrow> bool"
  aapt_runs :: bool

definition newline :: string where
  "newline = [CHR 0x0A]"

definition quote :: string where
  "quote = [CHR 0x27]"

text \<open>\<^verbatim>\<open>str(path)\<close> for an absolute path.\<close>

definition str_path :: "path \<Rightarrow> string" where
  "str_path p = (if p = [] then ''/'' else concat (map (\<lambda>c. CHR ''/'' # c) p))"

definition avds_dir :: "state \<Rightarrow> path" where
  "avds_dir st = data_dir st @ [''avds'']"

definition sessions_dir :: "state \<Rightarrow> path" where
  "sessions_dir st = data_dir st @ [''sessions'']"

definition shared_dir :: "state \<Rightarrow> path" where
  "shared_dir st = data_dir st @ [''shared'']"

definition emulator_bin :: "state \<Rightarrow> path" where
  "emulator_bin st = sdk_path st @ [''emulator'', ''emulator'']"

definition avdmanager_bin :: "state \<Rightarrow> path" where
  "avdmanager_bin st = sdk_path st @ [''cmdline-tools'', ''latest'', ''bin'', ''avdmanager'']"

definition sdkmanager_bin :: "state \<Rightarrow> path" where
  "sdkmanager_bin st = sdk_path st @ [''cmdline-tools'', ''latest'', ''bin'', ''sdkmanager'']"

definition adb_bin :: "state \<Rightarrow> path" where
  "adb_bin st = sdk_path st @ [''platform-tools'', ''adb'']"

definition subprocess_run :: "env \<Rightarrow> state \<Rightarrow> string list \<Rightarrow> completed \<times> state" where
  "subprocess_run env st argv = (run env argv, st\<lparr>log := log st @ [argv]\<rparr>)"

text \<open>
  \<^verbatim>\<open>__init__\<close>: the three directories are made with \<^verbatim>\<open>mkdir(parents=True, exist_ok=True)\<close>
  and both registries start empty. \<open>t\<close> is the file system found, \<open>dd\<close> and \<open>sdk\<close> are
  the data directory and the SDK path after the defaults have been filled in.
\<close>

definition init_manager :: "filesystem \<Rightarrow> path \<Rightarrow> path \<Rightarrow> error + state" where
  "init_manager t dd sdk =
     (case path_mkdir t (dd @ [''avds'']) True True of
        Inl e \<Rightarrow> Inl e
      | Inr t1 \<Rightarrow>
          (case path_mkdir t1 (dd @ [''sessions'']) True True of
             Inl e \<Rightarrow> Inl e
           | Inr t2 \<Rightarrow>
               (case path_mkdir t2 (dd @ [''shared'']) True True of
                  Inl e \<Rightarrow> Inl e
                | Inr t3 \<Rightarrow>
                    Inr \<lparr>data_dir = dd, sdk_path = sdk, processes = [], ports = [], fs = t3,
                         log = [], launched = [], exited = {}, killed = {}\<rparr>)))"

subsection \<open>AVD management\<close>

definition ensure_system_image :: "env \<Rightarrow> state \<Rightarrow> string \<Rightarrow> bool \<times> state" where
  "ensure_system_image env st sys_image =
     (case subprocess_run env st [str_path (sdkmanager_bin st), ''--list_installed''] of
        (result, st1) \<Rightarrow>
          if contains sys_image (stdout result) then (True, st1)
          else (case subprocess_run env st1 [str_path (sdkmanager_bin st1), sys_image] of
                  (result2, st2) \<Rightarrow> (returncode result2 = 0, st2)))"

definition create_base_avd :: "env \<Rightarrow> state \<Rightarrow> EmulatorConfig \<Rightarrow> (error + bool) \<times> state" where
  "create_base_avd env st config =
     (case ensure_system_image env st (cfg_system_image config) of
        (installed, st1) \<Rightarrow>
          if \<not> installed then (Inl ProvisioningError, st1)
          else
            (case subprocess_run env st1 [str_path (avdmanager_bin st1), ''list'', ''avd'', ''-c''] of
               (result, st2) \<Rightarrow>
                 if cfg_avd_name config \<in> set (split_on newline (stdout result)) then (Inr True, st2)
                 else
                   (case subprocess_run env st2
                           [str_path (avdmanager_bin st2), ''create'', ''avd'',
                            ''--name'', cfg_avd_name config,
                            ''--package'', cfg_system_image config,
                            ''--device'', device_profile config,
                            ''--force''] of
                      (result3, st3) \<Rightarrow>
                        if returncode result3 \<noteq> 0 then (Inl ProvisioningError, st3)
                        else (Inr True, st3))))"

subsection \<open>Session store\<close>

text \<open>
  \<^verbatim>\<open>self.sessions_dir / session_id\<close>: the session id is one component of the path (an
  id is a name, without a separator).
\<close>

definition session_path :: "state \<Rightarrow> string \<Rightarrow> path" where
  "session_path st sid = sessions_dir st @ [sid]"

text \<open>
  The template step of \<open>create_session\<close>:
  \<^verbatim>\<open>
  if from_template:
      if from_template == "base":
          base_userdata = self.shared_dir / "base_userdata.img"
      else:
          base_userdata = self.sessions_dir / from_template / "userdata.img"
      if base_userdata.exists():
          shutil.copy(base_userdata, session_dir / "userdata.img")
  \<close>
\<close>

definition template_source :: "state \<Rightarrow> string \<Rightarrow> path" where
  "template_source st from_template =
     (if from_template = ''base'' then shared_dir st @ [''base_userdata.img'']
      else sessions_dir st @ [from_template, ''userdata.img''])"

definition copy_template :: "state \<Rightarrow> filesystem \<Rightarrow> path \<Rightarrow> string option \<Rightarrow> error + filesystem" where
  "copy_template st t session_dir from_template =
     (case from_template of
        None \<Rightarrow> Inr t
      | Some tmpl \<Rightarrow>
          if tmpl = [] then Inr t
          else
            (let base_userdata = template_source st tmpl in
             if path_exists t base_userdata
             then shutil_copy t base_userdata (session_dir @ [''userdata.img''])
             else Inr t))"

text \<open>
  The metadata of a new session, as \<open>create_session\<close> builds it:
  \<^verbatim>\<open>
  metadata = SessionMetadata(
      session_id=session_id,
      created_at=datetime.now().isoformat(),
      last_accessed=datetime.now().isoformat(),
      avd_name=config.avd_name,
      system_image=config.system_image,
  )
  \<close>
  The two timestamps are the readings 0 and 1 of the clock.
\<close>

definition new_metadata :: "env \<Rightarrow> string \<Rightarrow> EmulatorConfig \<Rightarrow> SessionMetadata" where
  "new_metadata env sid cfg =
     \<lparr>session_id = sid,
      created_at = now env 0,
      last_accessed = now env 1,
      avd_name = cfg_avd_name cfg,
      system_image = cfg_system_image cfg,
      installed_packages = [],
      snapshots = [],
      md_notes = []\<rparr>"

definition create_session ::
  "env \<Rightarrow> state \<Rightarrow> string \<Rightarrow> EmulatorConfig option \<Rightarrow> string option \<Rightarrow> (error + path) \<times> state" where
  "create_session env st sid config from_template =
     (let cfg = config_or_default config;
          session_dir = session_path st sid
      in
      if path_exists (fs st) session_dir then (Inl AlreadyExists, st)
      else
        (case path_mkdir (fs st) session_dir True False of
           Inl e \<Rightarrow> (Inl e, st)
         | Inr t1 \<Rightarrow>
             (case path_mkdir t1 (session_dir @ [''snapshots'']) False False of
                Inl e \<Rightarrow> (Inl e, st\<lparr>fs := t1\<rparr>)
              | Inr t2 \<Rightarrow>
                  (case save_metadata t2 session_dir (new_metadata env sid cfg) of
                     Inl e \<Rightarrow> (Inl e, st\<lparr>fs := t2\<rparr>)
                   | Inr t3 \<Rightarrow>
                       (case copy_template st t3 session_dir from_template of
                          Inl e \<Rightarrow> (Inl e, st\<lparr>fs := t3\<rparr>)
                        | Inr t4 \<Rightarrow> (Inr session_dir, st\<lparr>fs := t4\<rparr>))))))"

definition get_session :: "state \<Rightarrow> string \<Rightarrow> path option" where
  "get_session st sid =
     (let session_dir = session_path st sid in
      if path_exists (fs st) session_dir then Some session_dir else None)"

text \<open>
  The file system after the three creating steps of \<open>create_session\<close> (the session
  directory, \<^verbatim>\<open>snapshots/\<close>, \<^verbatim>\<open>metadata.json\<close>), before the template step.
\<close>

definition fresh_session_fs :: "env \<Rightarrow> state \<Rightarrow> string \<Rightarrow> EmulatorConfig option \<Rightarrow> filesystem" where
  "fresh_session_fs env st sid config =
     (fs st)
       (session_path st sid \<mapsto> Dir,
        session_path st sid @ [''snapshots''] \<mapsto> Dir,
        session_path st sid @ [''metadata.json''] \<mapsto>
          File (Document (asdict (new_metadata env sid (config_or_default config)))))"

subsection \<open>Emulator lifecycle\<close>

text \<open>
  \<open>stop\<close>. The graceful request \<^verbatim>\<open>adb -s serial emu kill\<close> is run with a timeout of 10
  seconds; its result is not looked at and \<^verbatim>\<open>TimeoutExpired\<close> is passed over, so both
  outcomes continue in the same way. Then \<^verbatim>\<open>process.wait(timeout=30)\<close>; when the process
  has not exited by then, its process group gets SIGKILL and the wait is repeated
  without a timeout. At the end both registry entries are deleted. \<^verbatim>\<open>self._ports[session_id]\<close>
  raises KeyError for a session without a port. Not modelled: an \<^verbatim>\<open>adb\<close> binary that
  cannot be executed, and a process that is gone between the timed wait and \<^verbatim>\<open>killpg\<close>.
\<close>

definition stop :: "env \<Rightarrow> state \<Rightarrow> string \<Rightarrow> bool \<Rightarrow> (error + bool) \<times> state" where
  "stop env st sid save_snapshot =
     (case map_of (processes st) sid of
        None \<Rightarrow> (Inr False, st)
      | Some process \<Rightarrow>
          (case map_of (ports st) sid of
             None \<Rightarrow> (Inl KeyError, st)
           | Some p \<Rightarrow>
               (let serial = serial_of p;
                    st1 = st\<lparr>log := log st @ [[str_path (adb_bin st), ''-s'', serial, ''emu'', ''kill'']]\<rparr>;
                    st2 = (if process \<in> exited st1 \<or> exits_in_time env process
                           then st1\<lparr>exited := insert process (exited st1)\<rparr>
                           else st1\<lparr>exited := insert process (exited st1),
                                    killed := insert process (killed st1)\<rparr>)
                in (Inr True,
                    st2\<lparr>processes := AList.delete sid (processes st2),
                        ports := AList.delete sid (ports st2)\<rparr>))))"

text \<open>The command line of the emulator, as \<open>start\<close> builds it.\<close>

definition emulator_cmd :: "state \<Rightarrow> EmulatorConfig \<Rightarrow> int \<Rightarrow> path \<Rightarrow> string list" where
  "emulator_cmd st config p session_dir =
     [str_path (emulator_bin st), ''-avd'', cfg_avd_name config, ''-port'', str_int p,
      ''-memory'', str_int (memory_mb config), ''-cores'', str_int (cores config)]
     @ (if path_exists (fs st) (session_dir @ [''userdata.img''])
        then [''-data'', str_path (session_dir @ [''userdata.img''])] else [])
     @ (if path_exists (fs st) (session_dir @ [''sdcard.img''])
        then [''-sdcard'', str_path (session_dir @ [''sdcard.img''])] else [])
     @ (if headless config
        then [''-no-window'', ''-no-audio'', ''-no-boot-anim'', ''-gpu'', gpu config]
        else [''-gpu'', ''host''])
     @ (if writable_system config then [''-writable-system''] else [])
     @ (if \<not> snapshot_on_exit config then [''-no-snapshot-save''] else [])"

text \<open>\<^verbatim>\<open>config.port or self._find_available_port()\<close>: a port 0 counts as none.\<close>

definition choose_port :: "env \<Rightarrow> state \<Rightarrow> EmulatorConfig \<Rightarrow> error + int" where
  "choose_port env st config =
     (case port config of
        Some p \<Rightarrow> if p \<noteq> 0 then Inr p else find_available_port (port_in_use env) (ports st)
      | None \<Rightarrow> find_available_port (port_in_use env) (ports st))"

text \<open>
  \<open>start\<close>. The clock reading 2 is the new \<^verbatim>\<open>last_accessed\<close>.
\<close>

definition start ::
  "env \<Rightarrow> state \<Rightarrow> string \<Rightarrow> EmulatorConfig option \<Rightarrow> bool \<Rightarrow> int \<Rightarrow> (error + string) \<times> state" where
  "start env st sid config wait_boot timeout =
     (if map_of (processes st) sid \<noteq> None then
        (case map_of (ports st) sid of
           None \<Rightarrow> (Inl KeyError, st)
         | Some p \<Rightarrow> (Inr (serial_of p), st))
      else
        (case (case get_session st sid of
                 Some d \<Rightarrow> (Inr d, st)
               | None \<Rightarrow> create_session env st sid config None) of
           (Inl e, st1) \<Rightarrow> (Inl e, st1)
         | (Inr session_dir, st1) \<Rightarrow>
             (let cfg = config_or_default config in
              case load_metadata (fs st1) session_dir of
                Inl e \<Rightarrow> (Inl e, st1)
              | Inr metadata \<Rightarrow>
                  (case create_base_avd env st1 cfg of
                     (Inl e, st2) \<Rightarrow> (Inl e, st2)
                   | (Inr created, st2) \<Rightarrow>
                       (case choose_port env st2 cfg of
                          Inl e \<Rightarrow> (Inl e, st2)
                        | Inr p \<Rightarrow>
                            (let st3 = st2\<lparr>ports := AList.update sid p (ports st2)\<rparr>;
                                 cmd = emulator_cmd st3 cfg p session_dir;
                                 process = length (launched st3);
                                 st4 = st3\<lparr>launched := launched st3 @ [cmd],
                                          processes := AList.update sid process (processes st3)\<rparr>;
                                 serial = serial_of p
                             in
                             if wait_boot \<and> \<not> boot_completes env serial timeout then
                               (case stop env st4 sid True of
                                  (Inl e, st5) \<Rightarrow> (Inl e, st5)
                                | (Inr stopped, st5) \<Rightarrow> (Inl BootTimeout, st5))
                             else
                               (case metadata of
                                  None \<Rightarrow> (Inr serial, st4)
                                | Some m \<Rightarrow>
                                    (case save_metadata (fs st4) session_dir
                                            (m\<lparr>last_accessed := now env 2\<rparr>) of
                                       Inl e \<Rightarrow> (Inl e, st4)
                                     | Inr t \<Rightarrow> (Inr serial, st4\<lparr>fs := t\<rparr>)))))))))"

text \<open>\<open>is_running\<close>: registered, and \<^verbatim>\<open>process.poll()\<close> finds the process alive.\<close>

definition is_running :: "state \<Rightarrow> string \<Rightarrow> bool" where
  "is_running st sid =
     (case map_of (processes st) sid of
        None \<Rightarrow> False
      | Some process \<Rightarrow> process \<notin> exited st)"

definition get_serial :: "state \<Rightarrow> string \<Rightarrow> string option" where
  "get_serial st sid =
     (case map_of (ports st) sid of
        Some p \<Rightarrow> Some (serial_of p)
      | None \<Rightarrow> None)"

text \<open>
  The callers test \<^verbatim>\<open>if not serial\<close>, which holds for \<^verbatim>\<open>None\<close> and for the empty
  string; below this is the case \<open>None\<close> and the test \<open>serial = []\<close>.
\<close>

text \<open>
  \<open>delete_session\<close>
\<close>

definition delete_session :: "env \<Rightarrow> state \<Rightarrow> string \<Rightarrow> bool \<Rightarrow> (error + bool) \<times> state" where
  "delete_session env st sid force =
     (case (if map_of (processes st) sid \<noteq> None then
              (if force then stop env st sid True
               else (Inl SessionRunning, st))
            else (Inr False, st)) of
        (Inl e, st1) \<Rightarrow> (Inl e, st1)
      | (Inr stopped, st1) \<Rightarrow>
          (let session_dir = session_path st1 sid in
           if path_exists (fs st1) session_dir then
             (case rmtree (fs st1) session_dir of
                Inl e \<Rightarrow> (Inl e, st1)
              | Inr t \<Rightarrow> (Inr True, st1\<lparr>fs := t\<rparr>))
           else (Inr False, st1)))"

subsection \<open>Snapshots\<close>

text \<open>
  \<open>save_snapshot\<close>. After a return code 0 the metadata is loaded from
  \<^verbatim>\<open>self.get_session(session_id)\<close>; when that is \<^verbatim>\<open>None\<close>, \<^verbatim>\<open>session_dir / "metadata.json"\<close>
  raises TypeError.
\<close>

definition save_snapshot :: "env \<Rightarrow> state \<Rightarrow> string \<Rightarrow> string \<Rightarrow> (error + bool) \<times> state" where
  "save_snapshot env st sid snapshot_name =
     (case get_serial st sid of
        None \<Rightarrow> (Inl SessionNotRunning, st)
      | Some serial \<Rightarrow>
        if serial = [] then (Inl SessionNotRunning, st)
        else
        (case subprocess_run env st
                [str_path (adb_bin st), ''-s'', serial, ''emu'', ''avd'', ''snapshot'', ''save'',
                 snapshot_name] of
           (result, st1) \<Rightarrow>
             if returncode result = 0 then
               (case get_session st1 sid of
                  None \<Rightarrow> (Inl TypeError, st1)
                | Some session_dir \<Rightarrow>
                    (case load_metadata (fs st1) session_dir of
                       Inl e \<Rightarrow> (Inl e, st1)
                     | Inr None \<Rightarrow> (Inr True, st1)
                     | Inr (Some m) \<Rightarrow>
                         if snapshot_name \<notin> set (snapshots m) then
                           (case save_metadata (fs st1) session_dir
                                   (m\<lparr>snapshots := snapshots m @ [snapshot_name]\<rparr>) of
                              Inl e \<Rightarrow> (Inl e, st1)
                            | Inr t \<Rightarrow> (Inr True, st1\<lparr>fs := t\<rparr>))
                         else (Inr True, st1)))
             else (Inr False, st1)))"

definition load_snapshot :: "env \<Rightarrow> state \<Rightarrow> string \<Rightarrow> string \<Rightarrow> (error + bool) \<times> state" where
  "load_snapshot env st sid snapshot_name =
     (case get_serial st sid of
        None \<Rightarrow> (Inl SessionNotRunning, st)
      | Some serial \<Rightarrow>
        if serial = [] then (Inl SessionNotRunning, st)
        else
        (case subprocess_run env st
                [str_path (adb_bin st), ''-s'', serial, ''emu'', ''avd'', ''snapshot'', ''load'',
                 snapshot_name] of
           (result, st1) \<Rightarrow> (Inr (returncode result = 0), st1)))"

text \<open>
  The parser of \<open>list_snapshots\<close>, and the branch that answers from the metadata
  (\<open>stored_snapshots\<close>):
  \<^verbatim>\<open>
  for line in result.stdout.split("\n"):
      line = line.strip()
      if line and not line.startswith("ID") and not line.startswith("-"):
          parts = line.split()
          if parts:
              snapshots.append(parts[0])
  \<close>
\<close>

definition parse_snapshot_line :: "string \<Rightarrow> string list" where
  "parse_snapshot_line line0 =
     (let line = strip line0 in
      if line \<noteq> [] \<and> \<not> startswith line ''ID'' \<and> \<not> startswith line ''-'' then
        (case split_ws line of
           [] \<Rightarrow> []
         | part # parts \<Rightarrow> [part])
      else [])"

definition parse_snapshot_list :: "string \<Rightarrow> string list" where
  "parse_snapshot_list out = concat (map parse_snapshot_line (split_on newline out))"

definition stored_snapshots :: "state \<Rightarrow> string \<Rightarrow> (error + string list) \<times> state" where
  "stored_snapshots st sid =
     (case get_session st sid of
        Some session_dir \<Rightarrow>
          (case load_metadata (fs st) session_dir of
             Inl e \<Rightarrow> (Inl e, st)
           | Inr (Some m) \<Rightarrow> (Inr (snapshots m), st)
           | Inr None \<Rightarrow> (Inr [], st))
      | None \<Rightarrow> (Inr [], st))"

definition list_snapshots :: "env \<Rightarrow> state \<Rightarrow> string \<Rightarrow> (error + string list) \<times> state" where
  "list_snapshots env st sid =
     (case get_serial st sid of
        None \<Rightarrow> stored_snapshots st sid
      | Some serial \<Rightarrow>
        if serial = [] then stored_snapshots st sid
        else
        (case subprocess_run env st
                [str_path (adb_bin st), ''-s'', serial, ''emu'', ''avd'', ''snapshot'', ''list''] of
           (result, st1) \<Rightarrow> (Inr (parse_snapshot_list (stdout result)), st1)))"

text \<open>\<open>delete_snapshot\<close>; \<^verbatim>\<open>list.remove\<close> takes out the first occurrence.\<close>

definition delete_snapshot :: "env \<Rightarrow> state \<Rightarrow> string \<Rightarrow> string \<Rightarrow> (error + bool) \<times> state" where
  "delete_snapshot env st sid snapshot_name =
     (case get_serial st sid of
        None \<Rightarrow> (Inl SessionNotRunning, st)
      | Some serial \<Rightarrow>
        if serial = [] then (Inl SessionNotRunning, st)
        else
        (case subprocess_run env st
                [str_path (adb_bin st), ''-s'', serial, ''emu'', ''avd'', ''snapshot'', ''delete'',
                 snapshot_name] of
           (result, st1) \<Rightarrow>
             if returncode result = 0 then
               (case get_session st1 sid of
                  None \<Rightarrow> (Inl TypeError, st1)
                | Some session_dir \<Rightarrow>
                    (case load_metadata (fs st1) session_dir of
                       Inl e \<Rightarrow> (Inl e, st1)
                     | Inr None \<Rightarrow> (Inr True, st1)
                     | Inr (Some m) \<Rightarrow>
                         if snapshot_name \<in> set (snapshots m) then
                           (case save_metadata (fs st1) session_dir
                                   (m\<lparr>snapshots := remove1 snapshot_name (snapshots m)\<rparr>) of
                              Inl e \<Rightarrow> (Inl e, st1)
                            | Inr t \<Rightarrow> (Inr True, st1\<lparr>fs := t\<rparr>))
                         else (Inr True, st1)))
             else (Inr False, st1)))"

subsection \<open>App management\<close>

text \<open>
  The package name out of the first line of the \<^verbatim>\<open>aapt\<close> output that starts with
  \<^verbatim>\<open>package:\<close>, as \<^verbatim>\<open>line.split("name='")[1].split("'")[0]\<close>; \<open>None\<close> where the source
  raises IndexError.
\<close>

definition package_of_line :: "string \<Rightarrow> string option" where
  "package_of_line line =
     (case split_on (''name='' @ quote) line of
        a # b # rest \<Rightarrow>
          (case split_on quote b of
             [] \<Rightarrow> None
           | package # rest' \<Rightarrow> Some package)
      | _ \<Rightarrow> None)"

text \<open>
  The block of \<open>install_apk\<close> under \<^verbatim>\<open>try: ... except Exception: pass\<close>: whatever is
  raised inside leaves the state as it was when it was raised.
\<close>

definition record_package :: "env \<Rightarrow> state \<Rightarrow> string \<Rightarrow> string \<Rightarrow> state" where
  "record_package env st sid apk_path =
     (if \<not> aapt_runs env then st
      else
        (case subprocess_run env st [''aapt'', ''dump'', ''badging'', apk_path] of
           (aapt_result, st1) \<Rightarrow>
             (case find (\<lambda>line. startswith line ''package:'') (split_on newline (stdout aapt_result)) of
                None \<Rightarrow> st1
              | Some line \<Rightarrow>
                  (case package_of_line line of
                     None \<Rightarrow> st1
                   | Some package \<Rightarrow>
                       (case get_session st1 sid of
                          None \<Rightarrow> st1
                        | Some session_dir \<Rightarrow>
                            (case load_metadata (fs st1) session_dir of
                               Inl e \<Rightarrow> st1
                             | Inr None \<Rightarrow> st1
                             | Inr (Some m) \<Rightarrow>
                                 if package \<notin> set (installed_packages m) then
                                   (case save_metadata (fs st1) session_dir
                                           (m\<lparr>installed_packages := installed_packages m @ [package]\<rparr>) of
                                      Inl e \<Rightarrow> st1
                                    | Inr t \<Rightarrow> st1\<lparr>fs := t\<rparr>)
                                 else st1))))))"

definition install_apk :: "env \<Rightarrow> state \<Rightarrow> string \<Rightarrow> string \<Rightarrow> (error + bool) \<times> state" where
  "install_apk env st sid apk_path =
     (case get_serial st sid of
        None \<Rightarrow> (Inl SessionNotRunning, st)
      | Some serial \<Rightarrow>
        if serial = [] then (Inl SessionNotRunning, st)
        else
        (case subprocess_run env st
                [str_path (adb_bin st), ''-s'', serial, ''install'', ''-r'', apk_path] of
           (result, st1) \<Rightarrow>
             if returncode result = 0 then (Inr True, record_package env st1 sid apk_path)
             else (Inr False, st1)))"

subsection \<open>Invariants of the state\<close>

text \<open>
  Every session with a process handle has a port: \<open>start\<close> enters the port first and
  \<open>stop\<close> deletes both entries.
\<close>

definition registry_ok :: "state \<Rightarrow> bool" where
  "registry_ok st = (\<forall>sid. map_of (processes st) sid \<noteq> None \<longrightarrow> map_of (ports st) sid \<noteq> None)"

text \<open>
  The session store is in order when the disk is a tree, the sessions directory
  exists, and no session path is a plain file (a session is a directory).
\<close>

definition fs_ok :: "path \<Rightarrow> filesystem \<Rightarrow> bool" where
  "fs_ok sd t = (fs_tree t \<and> t sd = Some Dir \<and> (\<forall>x. \<not> is_file t (sd @ [x])))"

definition store_ok :: "state \<Rightarrow> bool" where
  "store_ok st = fs_ok (sessions_dir st) (fs st)"

definition state_ok :: "state \<Rightarrow> bool" where
  "state_ok st = (registry_ok st \<and> store_ok st)"

text \<open>
  The states a manager goes through: it is made by \<open>init_manager\<close> on a disk that is a
  tree with no plain file directly in its sessions directory; then any operation is
  called with any arguments on any host, and a launched process may exit at any time.
\<close>

inductive reachable :: "state \<Rightarrow> bool" where
  made:
    "init_manager t dd sdk = Inr st \<Longrightarrow> fs_tree t
       \<Longrightarrow> (\<forall>x. \<not> is_file t (dd @ [''sessions'', x])) \<Longrightarrow> reachable st"
| created: "reachable st \<Longrightarrow> reachable (snd (create_session env st sid config from_template))"
| deleted: "reachable st \<Longrightarrow> reachable (snd (delete_session env st sid force))"
| started: "reachable st \<Longrightarrow> reachable (snd (start env st sid config wait_boot timeout))"
| stopped: "reachable st \<Longrightarrow> reachable (snd (stop env st sid sv))"
| snapshot_saved: "reachable st \<Longrightarrow> reachable (snd (save_snapshot env st sid snapshot_name))"
| snapshot_loaded: "reachable st \<Longrightarrow> reachable (snd (load_snapshot env st sid snapshot_name))"
| snapshots_listed: "reachable st \<Longrightarrow> reachable (snd (list_snapshots env st sid))"
| snapshot_deleted: "reachable st \<Longrightarrow> reachable (snd (delete_snapshot env st sid snapshot_name))"
| installed: "reachable st \<Longrightarrow> reachable (snd (install_apk env st sid apk_path))"
| process_exit: "reachable st \<Longrightarrow> reachable (st\<lparr>exited := insert process (exited st)\<rparr>)"

text \<open>The exceptions that the file operations raise.\<close>

definition fs_error :: "error \<Rightarrow> bool" where
  "fs_error e =
     (e \<in> {FileExistsError, FileNotFoundError, NotADirectoryError, IsADirectoryError, SameFileError})"

subsection \<open>Example states\<close>

text \<open>
  A host on which every command returns 0 with empty output, processes exit when
  asked to, the emulator boots, and no TCP port is taken.
\<close>

definition env_ok :: env where
  "env_ok =
     \<lparr>run = (\<lambda>argv. \<lparr>returncode = 0, stdout = [], stderr = []\<rparr>),
      exits_in_time = (\<lambda>process. True),
      boot_completes = (\<lambda>serial timeout. True),
      now = (\<lambda>k. ''2024-05-01T10:00:0'' @ str_nat k),
      port_in_use = (\<lambda>p. False),
      aapt_runs = True\<rparr>"

text \<open>The same host with an emulator that never reports the end of its boot.\<close>

definition env_no_boot :: env where
  "env_no_boot = env_ok\<lparr>boot_completes := (\<lambda>serial timeout. False)\<rparr>"

text \<open>
  A host whose device bridge answers every command with the return code 1 and whose
  processes never exit on request.
\<close>

definition env_hang :: env where
  "env_hang =
     env_ok\<lparr>run := (\<lambda>argv. \<lparr>returncode = 1, stdout = [], stderr = ''error: device offline''\<rparr>),
            exits_in_time := (\<lambda>process. False)\<rparr>"

text \<open>
  A host whose emulator answers \<^verbatim>\<open>snapshot list\<close> with one line, the snapshot name
  \<^verbatim>\<open>ID7\<close>; every other command returns 0 with empty output.
\<close>

definition env_listing :: env where
  "env_listing =
     env_ok\<lparr>run := (\<lambda>argv. \<lparr>returncode = 0,
                            stdout = (if argv \<noteq> [] \<and> last argv = ''list'' then ''ID7'' @ newline else []),
                            stderr = []\<rparr>)\<rparr>"

text \<open>A configuration with the fixed port 5554.\<close>

definition cfg_5554 :: EmulatorConfig where
  "cfg_5554 = default_config\<lparr>port := Some 5554\<rparr>"

text \<open>
  The manager made by \<open>init_manager\<close> with the data directory \<^verbatim>\<open>/data\<close> and the SDK in
  \<^verbatim>\<open>/sdk\<close> on a disk that holds the root directory only.
\<close>

definition fs_init :: filesystem where
  "fs_init =
     [[] \<mapsto> Dir, [''data''] \<mapsto> Dir, [''data'', ''avds''] \<mapsto> Dir,
      [''data'', ''sessions''] \<mapsto> Dir, [''data'', ''shared''] \<mapsto> Dir]"

definition st_init :: state where
  "st_init =
     \<lparr>data_dir = [''data''], sdk_path = [''sdk''], processes = [], ports = [], fs = fs_init,
      log = [], launched = [], exited = {}, killed = {}\<rparr>"

text \<open>The session \<^verbatim>\<open>s1\<close> as \<open>create_session\<close> leaves it on that host.\<close>

definition md_s1 :: SessionMetadata where
  "md_s1 =
     \<lparr>session_id = ''s1'',
      created_at = ''2024-05-01T10:00:00'',
      last_accessed = ''2024-05-01T10:00:01'',
      avd_name = ''base_pixel7_api34'',
      system_image = ''system-images;android-34;google_apis;x86_64'',
      installed_packages = [],
      snapshots = [],
      md_notes = []\<rparr>"

definition fs_s1 :: filesystem where
  "fs_s1 =
     fs_init
       ([''data'', ''sessions'', ''s1''] \<mapsto> Dir,
        [''data'', ''sessions'', ''s1'', ''snapshots''] \<mapsto> Dir,
        [''data'', ''sessions'', ''s1'', ''metadata.json''] \<mapsto> File (Document (asdict md_s1)))"

definition st_s1 :: state where
  "st_s1 = st_init\<lparr>fs := fs_s1\<rparr>"

text \<open>
  The session \<^verbatim>\<open>s1\<close> after \<open>start\<close> with the fixed port 5554: the commands of the
  provisioning step have been run, the emulator has been launched with the handle 0,
  both registries hold the session, and \<^verbatim>\<open>last_accessed\<close> is the clock reading 2.
\<close>

definition provision_log :: "string list list" where
  "provision_log =
     [[''/sdk/cmdline-tools/latest/bin/sdkmanager'', ''--list_installed''],
      [''/sdk/cmdline-tools/latest/bin/sdkmanager'', ''system-images;android-34;google_apis;x86_64''],
      [''/sdk/cmdline-tools/latest/bin/avdmanager'', ''list'', ''avd'', ''-c''],
      [''/sdk/cmdline-tools/latest/bin/avdmanager'', ''create'', ''avd'',
       ''--name'', ''base_pixel7_api34'',
       ''--package'', ''system-images;android-34;google_apis;x86_64'',
       ''--device'', ''pixel_7'', ''--force'']]"

definition emulator_argv :: "string list" where
  "emulator_argv =
     [''/sdk/emulator/emulator'', ''-avd'', ''base_pixel7_api34'', ''-port'', ''5554'',
      ''-memory'', ''4096'', ''-cores'', ''4'',
      ''-no-window'', ''-no-audio'', ''-no-boot-anim'', ''-gpu'', ''swiftshader_indirect'']"

definition md_s1_started :: SessionMetadata where
  "md_s1_started = md_s1\<lparr>last_accessed := ''2024-05-01T10:00:02''\<rparr>"

definition fs_s1_started :: filesystem where
  "fs_s1_started =
     fs_s1([''data'', ''sessions'', ''s1'', ''metadata.json''] \<mapsto> File (Document (asdict md_s1_started)))"

definition st_s1_running :: state where
  "st_s1_running =
     st_s1\<lparr>processes := [(''s1'', 0)], ports := [(''s1'', 5554)], fs := fs_s1_started,
           log := provision_log, launched := [emulator_argv]\<rparr>"

text \<open>The same state after the emulator process has exited on its own.\<close>

definition st_s1_crashed :: state where
  "st_s1_crashed = st_s1_running\<lparr>exited := {0}\<rparr>"

text \<open>
  The state left by \<open>start\<close> on \<open>st_s1\<close> when the boot is not confirmed: the emulator
  was launched, asked to stop, and is gone from the registries.
\<close>

definition st_s1_timeout :: state where
  "st_s1_timeout =
     st_s1\<lparr>log := provision_log @ [[''/sdk/platform-tools/adb'', ''-s'', ''emulator-5554'', ''emu'', ''kill'']],
           launched := [emulator_argv], exited := {0}\<rparr>"

text \<open>
  The metadata of the running session with the snapshot \<^verbatim>\<open>snap1\<close> recorded, the disk
  holding it, and the state after \<^verbatim>\<open>save_snapshot("s1", "snap1")\<close>.
\<close>

definition md_s1_snap :: SessionMetadata where
  "md_s1_snap = md_s1_started\<lparr>snapshots := [''snap1'']\<rparr>"

definition fs_s1_snap :: filesystem where
  "fs_s1_snap =
     fs_s1_started([''data'', ''sessions'', ''s1'', ''metadata.json''] \<mapsto> File (Document (asdict md_s1_snap)))"

definition st_s1_snap :: state where
  "st_s1_snap =
     st_s1_running
       \<lparr>fs := fs_s1_snap,
        log := provision_log
               @ [[''/sdk/platform-tools/adb'', ''-s'', ''emulator-5554'', ''emu'', ''avd'', ''snapshot'',
                   ''save'', ''snap1'']]\<rparr>"

section \<open>Properties\<close>

subsection \<open>Port allocator\<close>

lemma py_range_ports: "py_range 5554 5682 2 = map (\<lambda>k. 5554 + 2 * int k) [0 ..< 64]"
  by (simp add: py_range_def)

lemma bind_bound_fails: "bound_to s \<noteq> None \<Longrightarrow> bind in_use s p = Inl InvalidArgument"
  by (simp add: bind_def)

lemma probe_never_succeeds: "probe in_use p = False"
  by (simp add: probe_def bind_def new_socket_def)

lemma scan_ports_None: "scan_ports in_use used cands = None"
  by (induction cands) (simp_all add: probe_never_succeeds)

lemma find_available_port_always_fails:
  "find_available_port in_use registry = Inl ResourceExhausted"
  by (simp add: find_available_port_def scan_ports_None)

text \<open>
  Claim C1. The allocator is to return the first even port of [5554, 5682) that is not
  in the registry and whose control and console ports are free, and to raise
  ResourceExhausted only when no port of the range is free. On a host where no port
  is in use and with an empty registry, the code raises ResourceExhausted: the second
  \<^verbatim>\<open>bind\<close> is made on the socket that the first one has bound, so it fails for every
  candidate and the \<^verbatim>\<open>except OSError\<close> clause moves on to the next one.
\<close>

theorem find_available_port_all_free:
  "find_available_port (\<lambda>p. False) [] = Inl ResourceExhausted"
  by (simp add: find_available_port_def scan_ports_None)

subsection \<open>File system\<close>

lemma tree_parent: "fs_tree t \<Longrightarrow> p \<noteq> [] \<Longrightarrow> t p \<noteq> None \<Longrightarrow> t (butlast p) = Some Dir"
  by (simp add: fs_tree_def)

lemma tree_prefixes_dir:
  "fs_tree t \<Longrightarrow> t q = Some Dir \<Longrightarrow> r \<in> set (prefixes q) \<Longrightarrow> t r = Some Dir"
proof (induction q arbitrary: r rule: rev_induct)
  case Nil
  then show ?case by simp
next
  case (snoc x xs)
  from snoc.prems(1,2) have par: "t xs = Some Dir"
    using tree_parent [of t "xs @ [x]"] by simp
  from snoc.prems(3) have "r = xs @ [x] \<or> r \<in> set (prefixes xs)" by auto
  then show ?case
  proof
    assume "r = xs @ [x]"
    then show ?thesis using snoc.prems(2) by simp
  next
    assume "r \<in> set (prefixes xs)"
    then show ?thesis using snoc.IH [OF snoc.prems(1) par] by simp
  qed
qed

lemma no_file_above:
  assumes "fs_tree t" and "t d = Some Dir"
  shows "\<not> list_ex (is_file t) (prefixes d)"
proof -
  have "\<And>r. r \<in> set (prefixes d) \<Longrightarrow> \<not> is_file t r"
    using tree_prefixes_dir [OF assms] by (simp add: is_file_def)
  then show ?thesis by (auto simp: list_ex_iff)
qed

lemma os_mkdir_ok:
  assumes "fs_tree t" and "t (butlast p) = Some Dir" and "t p = None"
  shows "os_mkdir t p = Inr (t(p \<mapsto> Dir))"
  using assms no_file_above [OF assms(1,2)] by (simp add: os_mkdir_def)

lemma path_mkdir_ok:
  assumes "fs_tree t" and "t (butlast p) = Some Dir" and "t p = None"
  shows "path_mkdir t p parents exist_ok = Inr (t(p \<mapsto> Dir))"
  by (subst path_mkdir.simps) (simp add: os_mkdir_ok [OF assms])

lemma write_file_ok:
  assumes "fs_tree t" and "t (butlast p) = Some Dir" and "t p \<noteq> Some Dir"
  shows "write_file t p c = Inr (t(p \<mapsto> File c))"
  using assms no_file_above [OF assms(1,2)] by (simp add: write_file_def)

lemma fs_tree_mkdir:
  assumes "fs_tree t" and "t (butlast p) = Some Dir" and "p \<noteq> []"
  shows "fs_tree (t(p \<mapsto> Dir))"
  using assms unfolding fs_tree_def by auto

lemma tree_children_of_nondir:
  assumes "fs_tree t" and "t p \<noteq> Some Dir" and "q \<noteq> []" and "butlast q = p"
  shows "t q = None"
  using assms unfolding fs_tree_def by auto

lemma fs_tree_write:
  assumes "fs_tree t" and "t (butlast p) = Some Dir" and "t p \<noteq> Some Dir" and "p \<noteq> []"
  shows "fs_tree (t(p \<mapsto> File c))"
  using assms unfolding fs_tree_def by auto

lemma fs_tree_rmtree:
  assumes "fs_tree t" and "p \<noteq> []"
  shows "fs_tree (\<lambda>q. if prefix p q then None else t q)"
proof -
  have "\<And>q. q \<noteq> [] \<Longrightarrow> prefix p (butlast q) \<Longrightarrow> prefix p q"
    by (metis append_butlast_last_id prefix_order.trans prefixI)
  then show ?thesis using assms unfolding fs_tree_def by auto
qed

subsection \<open>Metadata\<close>

lemma those_strs: "those (map (as_str \<circ> JString) xs) = Some xs"
  by (induction xs) simp_all

lemma from_dict_asdict: "from_dict (asdict m) = Inr m"
  by (simp add: from_dict_def asdict_def field_names_def those_strs)

lemma save_then_load: "save_metadata t d m = Inr t' \<Longrightarrow> load_metadata t' d = Inr (Some m)"
  by (auto simp: save_metadata_def load_metadata_def write_file_def read_file_def
        path_exists_def from_dict_asdict split: if_splits)

lemma serial_nonempty: "serial_of p \<noteq> []"
  by (simp add: serial_of_def)

lemma load_metadata_cong:
  "t' (d @ [''metadata.json'']) = t (d @ [''metadata.json'']) \<Longrightarrow> load_metadata t' d = load_metadata t d"
  by (simp add: load_metadata_def path_exists_def read_file_def Let_def)

lemma save_metadata_succeeds:
  assumes "fs_tree t" and "is_dir t d" and "\<not> is_dir t (d @ [''metadata.json''])"
  shows "\<exists>t'. save_metadata t d m = Inr t'"
  using assms write_file_ok [of t "d @ [''metadata.json'']"]
  by (simp add: save_metadata_def is_dir_def)

subsection \<open>Session store\<close>

lemma create_session_fresh:
  assumes tree: "fs_tree (fs st)"
      and sess: "fs st (sessions_dir st) = Some Dir"
      and fresh: "fs st (session_path st sid) = None"
  shows "create_session env st sid config ft =
           (case copy_template st (fresh_session_fs env st sid config) (session_path st sid) ft of
              Inl e \<Rightarrow> (Inl e, st\<lparr>fs := fresh_session_fs env st sid config\<rparr>)
            | Inr t4 \<Rightarrow> (Inr (session_path st sid), st\<lparr>fs := t4\<rparr>))"
proof -
  let ?d = "session_path st sid"
  let ?t1 = "(fs st)(?d \<mapsto> Dir)"
  let ?t2 = "?t1(?d @ [''snapshots''] \<mapsto> Dir)"
  have par: "butlast ?d = sessions_dir st" by (simp add: session_path_def)
  have m1: "path_mkdir (fs st) ?d True False = Inr ?t1"
    using path_mkdir_ok [OF tree _ fresh] par sess by simp
  have tree1: "fs_tree ?t1"
    using fs_tree_mkdir [OF tree, of ?d] par sess by (simp add: session_path_def)
  have kids: "\<And>x. fs st (?d @ [x]) = None"
    using tree_children_of_nondir [OF tree, of ?d] fresh by simp
  have m2: "path_mkdir ?t1 (?d @ [''snapshots'']) False False = Inr ?t2"
    using path_mkdir_ok [OF tree1, of "?d @ [''snapshots'']"] kids by simp
  have tree2: "fs_tree ?t2"
    using fs_tree_mkdir [OF tree1, of "?d @ [''snapshots'']"] by simp
  have m3: "save_metadata ?t2 ?d m = Inr (?t2(?d @ [''metadata.json''] \<mapsto> File (Document (asdict m))))" for m
    unfolding save_metadata_def
    using write_file_ok [OF tree2, of "?d @ [''metadata.json'']"] kids by simp
  show ?thesis
    unfolding fresh_session_fs_def
    using fresh by (simp add: create_session_def Let_def path_exists_def m1 m2 m3)
qed



lemma copy_template_elsewhere:
  assumes "copy_template st t d ft = Inr t'" and "\<not> prefix (d @ [''userdata.img'']) p"
  shows "t' p = t p"
  using assms
  by (auto simp: copy_template_def shutil_copy_def write_file_def Let_def
        split: option.splits if_splits sum.splits)

lemma create_session_steps:
  assumes "create_session env st sid config ft = (Inr d, st')"
  shows "\<exists>t1 t2 t3.
           \<not> path_exists (fs st) (session_path st sid)
         \<and> path_mkdir (fs st) (session_path st sid) True False = Inr t1
         \<and> path_mkdir t1 (session_path st sid @ [''snapshots'']) False False = Inr t2
         \<and> save_metadata t2 (session_path st sid)
              (new_metadata env sid (config_or_default config)) = Inr t3
         \<and> copy_template st t3 (session_path st sid) ft = Inr (fs st')
         \<and> d = session_path st sid \<and> st' = st\<lparr>fs := fs st'\<rparr>"
proof -
  let ?d = "session_path st sid"
  let ?m = "new_metadata env sid (config_or_default config)"
  show ?thesis
  proof (cases "path_exists (fs st) ?d")
    case True
    then show ?thesis using assms by (simp add: create_session_def)
  next
    case nex: False
    show ?thesis
    proof (cases "path_mkdir (fs st) ?d True False")
      case (Inl e)
      then show ?thesis using assms nex by (simp add: create_session_def)
    next
      case m1: (Inr t1)
      show ?thesis
      proof (cases "path_mkdir t1 (?d @ [''snapshots'']) False False")
        case (Inl e)
        then show ?thesis using assms nex m1 by (simp add: create_session_def)
      next
        case m2: (Inr t2)
        show ?thesis
        proof (cases "save_metadata t2 ?d ?m")
          case (Inl e)
          then show ?thesis using assms nex m1 m2 by (simp add: create_session_def)
        next
          case m3: (Inr t3)
          show ?thesis
          proof (cases "copy_template st t3 ?d ft")
            case (Inl e)
            then show ?thesis using assms nex m1 m2 m3 by (simp add: create_session_def)
          next
            case m4: (Inr t4)
            have "d = ?d \<and> st' = st\<lparr>fs := t4\<rparr>"
              using assms nex m1 m2 m3 m4 by (simp add: create_session_def)
            then show ?thesis using nex m1 m2 m3 m4 by simp
          qed
        qed
      qed
    qed
  qed
qed

lemma create_session_metadata:
  assumes "create_session env st sid config ft = (Inr d, st')"
  shows "load_metadata (fs st') d = Inr (Some (new_metadata env sid (config_or_default config)))"
proof -
  let ?d = "session_path st sid"
  let ?m = "new_metadata env sid (config_or_default config)"
  from create_session_steps [OF assms] obtain t2 t3 where
    sv: "save_metadata t2 ?d ?m = Inr t3" and
    cp: "copy_template st t3 ?d ft = Inr (fs st')" and d: "d = ?d"
    by blast
  have "\<not> prefix (?d @ [''userdata.img'']) (?d @ [''metadata.json''])" by simp
  then have same: "fs st' (?d @ [''metadata.json'']) = t3 (?d @ [''metadata.json''])"
    using copy_template_elsewhere [OF cp] by simp
  have "load_metadata t3 ?d = Inr (Some ?m)" using save_then_load [OF sv] .
  then show ?thesis using load_metadata_cong [of "fs st'" ?d t3] same unfolding d by simp
qed

subsection \<open>The example states\<close>

lemma now_ok:
  "now env_ok 0 = ''2024-05-01T10:00:00''"
  "now env_ok 1 = ''2024-05-01T10:00:01''"
  "now env_ok 2 = ''2024-05-01T10:00:02''"
  by (simp_all add: env_ok_def str_nat.simps digit_char_def)

lemma serial_5554: "serial_of 5554 = ''emulator-5554''"
  by (simp add: serial_of_def str_int_def str_nat.simps digit_char_def)

lemma fs_tree_root: "fs_tree [[] \<mapsto> Dir]"
  by (simp add: fs_tree_def)

lemma fs_tree_init: "fs_tree fs_init"
  unfolding fs_init_def
  by (intro fs_tree_mkdir fs_tree_root) simp_all

lemma fs_tree_s1: "fs_tree fs_s1"
  unfolding fs_s1_def
  by (intro fs_tree_write fs_tree_mkdir fs_tree_init) (simp_all add: fs_init_def)

lemma fs_tree_s1_started: "fs_tree fs_s1_started"
  unfolding fs_s1_started_def
  by (intro fs_tree_write fs_tree_s1) (simp_all add: fs_s1_def)

lemma mkdir_avds:
  "path_mkdir [[] \<mapsto> Dir] [''data'', ''avds''] True True
     = Inr [[] \<mapsto> Dir, [''data''] \<mapsto> Dir, [''data'', ''avds''] \<mapsto> Dir]"
  by (subst path_mkdir.simps)
     (simp add: os_mkdir_def is_file_def path_mkdir_ok fs_tree_root fs_tree_mkdir)

lemma init_example: "init_manager [[] \<mapsto> Dir] [''data''] [''sdk''] = Inr st_init"
  by (simp add: init_manager_def mkdir_avds path_mkdir_ok fs_tree_root fs_tree_mkdir
        st_init_def fs_init_def)

lemma session_path_init [simp]:
  "session_path st_init sid = [''data'', ''sessions'', sid]"
  "session_path st_s1 sid = [''data'', ''sessions'', sid]"
  by (simp_all add: session_path_def sessions_dir_def st_init_def st_s1_def)

lemma fs_examples [simp]:
  "fs st_init = fs_init"
  "fs st_s1 = fs_s1"
  by (simp_all add: st_init_def st_s1_def)

lemma new_metadata_s1: "new_metadata env_ok ''s1'' (config_or_default None) = md_s1"
  by (simp add: new_metadata_def md_s1_def config_or_default_def default_config_def env_ok_def
        str_nat.simps digit_char_def)

lemma create_example:
  "create_session env_ok st_init ''s1'' None None = (Inr [''data'', ''sessions'', ''s1''], st_s1)"
proof -
  have h1: "fs_tree (fs st_init)" by (simp add: fs_tree_init)
  have h2: "fs st_init (sessions_dir st_init) = Some Dir"
    by (simp add: st_init_def fs_init_def sessions_dir_def)
  have h3: "fs st_init (session_path st_init ''s1'') = None"
    by (simp add: fs_init_def)
  have fr: "fresh_session_fs env_ok st_init ''s1'' None = fs_s1"
    by (simp add: fresh_session_fs_def new_metadata_s1 fs_s1_def)
  show ?thesis
    by (simp add: create_session_fresh [OF h1 h2 h3] copy_template_def fr st_s1_def)
qed

subsection \<open>Claims about the session store\<close>

text \<open>
  Claim C5. For every session id whose session directory already exists,
  \<open>create_session\<close> fails with AlreadyExists and leaves the whole state as it was:
  the disk (so the existing directory, its metadata file, images and snapshots), the
  registries and the list of commands run are those of the state before the call.
\<close>

theorem create_session_existing:
  assumes "path_exists (fs st) (session_path st sid)"
  shows "create_session env st sid config from_template = (Inl AlreadyExists, st)"
  using assms by (simp add: create_session_def)

theorem create_session_existing_witness:
  "path_exists (fs st_s1) (session_path st_s1 ''s1'')
   \<and> create_session env_ok st_s1 ''s1'' None (Some ''base'') = (Inl AlreadyExists, st_s1)"
  using create_session_existing [of st_s1 "''s1''" env_ok None "Some ''base''"]
  by (simp add: path_exists_def fs_s1_def)



text \<open>
  Claim C8. Writing a metadata record with \<open>save_metadata\<close> and reading it back with
  \<open>load_metadata\<close> gives the same record, field by field; the write succeeds whenever
  the session directory is a directory of a tree and \<^verbatim>\<open>metadata.json\<close> is not a
  directory itself. In particular, after a successful \<open>create_session\<close> the metadata
  file loads as the record that was written: timestamps read from the clock during
  the call, no packages and no snapshots.
\<close>

theorem metadata_roundtrip:
  "(save_metadata t d m = Inr t' \<longrightarrow> load_metadata t' d = Inr (Some m))
   \<and> (fs_tree t \<and> is_dir t d \<and> \<not> is_dir t (d @ [''metadata.json''])
        \<longrightarrow> (\<exists>t''. save_metadata t d m = Inr t''))
   \<and> (create_session env st sid config ft = (Inr d', st')
        \<longrightarrow> load_metadata (fs st') d' = Inr (Some (new_metadata env sid (config_or_default config)))
          \<and> installed_packages (new_metadata env sid (config_or_default config)) = []
          \<and> snapshots (new_metadata env sid (config_or_default config)) = []
          \<and> created_at (new_metadata env sid (config_or_default config)) = now env 0
          \<and> last_accessed (new_metadata env sid (config_or_default config)) = now env 1)"
  using save_then_load [of t d m t'] save_metadata_succeeds [of t d m]
    create_session_metadata [of env st sid config ft d' st']
  by (simp add: new_metadata_def)

theorem metadata_roundtrip_witness:
  "fs_tree fs_s1_started
   \<and> is_dir fs_s1_started [''data'', ''sessions'', ''s1'']
   \<and> \<not> is_dir fs_s1_started ([''data'', ''sessions'', ''s1''] @ [''metadata.json''])
   \<and> save_metadata fs_s1_started [''data'', ''sessions'', ''s1''] md_s1_snap = Inr fs_s1_snap
   \<and> load_metadata fs_s1_snap [''data'', ''sessions'', ''s1''] = Inr (Some md_s1_snap)
   \<and> create_session env_ok st_init ''s1'' None None = (Inr [''data'', ''sessions'', ''s1''], st_s1)
   \<and> load_metadata (fs st_s1) [''data'', ''sessions'', ''s1''] = Inr (Some md_s1)"
proof -
  have d: "is_dir fs_s1_started [''data'', ''sessions'', ''s1'']"
    "\<not> is_dir fs_s1_started ([''data'', ''sessions'', ''s1''] @ [''metadata.json''])"
    by (simp_all add: is_dir_def fs_s1_started_def fs_s1_def)
  have sv: "save_metadata fs_s1_started [''data'', ''sessions'', ''s1''] md_s1_snap = Inr fs_s1_snap"
    using write_file_ok [OF fs_tree_s1_started, of "[''data'', ''sessions'', ''s1'', ''metadata.json'']"]
    by (simp add: save_metadata_def fs_s1_snap_def) (simp add: fs_s1_started_def fs_s1_def)
  show ?thesis
    using metadata_roundtrip [of fs_s1_started "[''data'', ''sessions'', ''s1'']" md_s1_snap fs_s1_snap
        env_ok st_init "''s1''" None None "[''data'', ''sessions'', ''s1'']" st_s1]
      sv create_example new_metadata_s1 fs_tree_s1_started d
    by simp
qed

subsection \<open>Which exceptions an operation can raise, and what it leaves alone\<close>



lemma write_file_error: "write_file t p c = Inl e \<Longrightarrow> fs_error e"
  by (auto simp: write_file_def fs_error_def split: if_splits)

lemma read_file_error: "read_file t p = Inl e \<Longrightarrow> fs_error e"
  by (auto simp: read_file_def fs_error_def split: option.splits node.splits)


lemma save_metadata_error: "save_metadata t d m = Inl e \<Longrightarrow> fs_error e"
  by (simp add: save_metadata_def write_file_error)

lemma from_dict_error: "from_dict j = Inl e \<Longrightarrow> e = TypeError"
  by (auto simp: from_dict_def split: json.splits if_splits option.splits prod.splits)

lemma load_metadata_error:
  "load_metadata t d = Inl e \<Longrightarrow> fs_error e \<or> e = JSONDecodeError \<or> e = TypeError"
  using read_file_error from_dict_error
  by (auto simp: load_metadata_def Let_def split: if_splits sum.splits content.splits)




lemma create_session_frame:
  "snd (create_session env st sid config ft) = st\<lparr>fs := fs (snd (create_session env st sid config ft))\<rparr>"
  by (simp add: create_session_def Let_def split: sum.split)

lemma ensure_system_image_frame:
  "snd (ensure_system_image env st img) = st\<lparr>log := log (snd (ensure_system_image env st img))\<rparr>"
  by (simp add: ensure_system_image_def subprocess_run_def)

lemma create_base_avd_frame:
  "snd (create_base_avd env st cfg) = st\<lparr>log := log (snd (create_base_avd env st cfg))\<rparr>"
  by (simp add: create_base_avd_def ensure_system_image_def subprocess_run_def
        sdkmanager_bin_def avdmanager_bin_def split: prod.split)




lemma stop_registered:
  assumes "map_of (processes st) sid = Some pr" and "map_of (ports st) sid = Some p"
  shows "\<exists>st'. stop env st sid sv = (Inr True, st')
      \<and> processes st' = AList.delete sid (processes st)
      \<and> ports st' = AList.delete sid (ports st)
      \<and> fs st' = fs st \<and> launched st' = launched st
      \<and> exited st' = insert pr (exited st)
      \<and> data_dir st' = data_dir st \<and> sdk_path st' = sdk_path st"
  using assms by (auto simp: stop_def Let_def)


subsection \<open>Evaluating the lifecycle on the example states\<close>

lemma st_s1_fields [simp]:
  "processes st_s1 = []" "ports st_s1 = []" "launched st_s1 = []" "log st_s1 = []"
  "exited st_s1 = {}" "killed st_s1 = {}" "data_dir st_s1 = [''data'']" "sdk_path st_s1 = [''sdk'']"
  by (simp_all add: st_s1_def st_init_def)

lemma load_s1: "load_metadata fs_s1 [''data'', ''sessions'', ''s1''] = Inr (Some md_s1)"
  by (simp add: load_metadata_def fs_s1_def path_exists_def read_file_def from_dict_asdict)

lemma get_session_s1: "get_session st_s1 ''s1'' = Some [''data'', ''sessions'', ''s1'']"
  by (simp add: get_session_def path_exists_def fs_s1_def)

lemma provision_example:
  "create_base_avd env_ok st_s1 cfg_5554 = (Inr True, st_s1\<lparr>log := provision_log\<rparr>)"
  "create_base_avd env_no_boot st_s1 cfg_5554 = (Inr True, st_s1\<lparr>log := provision_log\<rparr>)"
  by (simp_all add: create_base_avd_def ensure_system_image_def subprocess_run_def
        env_no_boot_def env_ok_def cfg_5554_def default_config_def split_on_def newline_def
        contains_def sdkmanager_bin_def avdmanager_bin_def str_path_def provision_log_def)

lemma emulator_cmd_example:
  "emulator_cmd (st_s1\<lparr>log := l, ports := ps\<rparr>) cfg_5554 5554 [''data'', ''sessions'', ''s1'']
     = emulator_argv"
  by (simp add: emulator_cmd_def emulator_bin_def str_path_def cfg_5554_def default_config_def
        path_exists_def fs_s1_def fs_init_def str_int_def str_nat.simps digit_char_def
        emulator_argv_def)

lemma choose_port_example: "choose_port env st cfg_5554 = Inr 5554"
  by (simp add: choose_port_def cfg_5554_def)

lemma env_examples [simp]:
  "boot_completes env_ok serial timeout"
  "\<not> boot_completes env_no_boot serial timeout"
  "exits_in_time env_ok process"
  "exits_in_time env_no_boot process"
  by (simp_all add: env_ok_def env_no_boot_def)

lemma start_timeout_example:
  "start env_no_boot st_s1 ''s1'' (Some cfg_5554) True 120 = (Inl BootTimeout, st_s1_timeout)"
  by (simp add: start_def get_session_s1 load_s1 config_or_default_def provision_example
        choose_port_example emulator_cmd_example Let_def)
     (simp add: stop_def update_conv' serial_5554 adb_bin_def str_path_def st_s1_timeout_def)

lemma start_example:
  "start env_ok st_s1 ''s1'' (Some cfg_5554) True 120 = (Inr ''emulator-5554'', st_s1_running)"
proof -
  have sv: "save_metadata fs_s1 [''data'', ''sessions'', ''s1''] (md_s1\<lparr>last_accessed := now env_ok 2\<rparr>)
              = Inr fs_s1_started"
    using write_file_ok [OF fs_tree_s1, of "[''data'', ''sessions'', ''s1'', ''metadata.json'']"]
    by (simp add: save_metadata_def fs_s1_started_def md_s1_started_def now_ok) (simp add: fs_s1_def)
  show ?thesis
    by (simp add: start_def get_session_s1 load_s1 config_or_default_def provision_example
          choose_port_example emulator_cmd_example Let_def)
       (simp add: serial_5554 sv update_conv' st_s1_running_def emulator_cmd_example)
qed


lemma registry_ok_running: "registry_ok st_s1_running" "registry_ok st_s1_crashed"
  by (simp_all add: registry_ok_def st_s1_running_def st_s1_crashed_def)

subsection \<open>Claims about start and stop\<close>

text \<open>
  Claim C4. In a state in which every session with a process handle has a port
  (\<open>registry_ok\<close>, which holds in every reachable state), \<open>start\<close>
  on a session id that is in the process registry returns the serial of the port
  already assigned, \<^verbatim>\<open>emulator-<port>\<close>, and the state after the call is the state
  before it: no process launched, no command run, no port allocated, both registries
  and the disk unchanged. This holds for every configuration, \<^verbatim>\<open>wait_boot\<close> and timeout.
\<close>

theorem start_idempotent:
  assumes "registry_ok st" and "map_of (processes st) sid \<noteq> None"
  shows "\<exists>p. map_of (ports st) sid = Some p
           \<and> start env st sid config wait_boot timeout = (Inr (serial_of p), st)"
  using assms by (auto simp: start_def registry_ok_def)

theorem start_idempotent_witness:
  "registry_ok st_s1_running \<and> map_of (processes st_s1_running) ''s1'' \<noteq> None
   \<and> start env_no_boot st_s1_running ''s1'' None True 120 = (Inr ''emulator-5554'', st_s1_running)"
  using start_idempotent [OF registry_ok_running(1), of "''s1''" env_no_boot None True 120]
    registry_ok_running(1)
  by (simp add: st_s1_running_def serial_5554)






subsection \<open>Claims about deleting a session\<close>


lemma get_session_frame:
  "data_dir st' = data_dir st \<Longrightarrow> fs st' = fs st \<Longrightarrow> get_session st' sid = get_session st sid"
  by (simp add: get_session_def session_path_def sessions_dir_def)

lemma st_s1_running_fields [simp]:
  "processes st_s1_running = [(''s1'', 0)]" "ports st_s1_running = [(''s1'', 5554)]"
  "fs st_s1_running = fs_s1_started" "data_dir st_s1_running = [''data'']"
  "sdk_path st_s1_running = [''sdk'']" "exited st_s1_running = {}"
  "log st_s1_running = provision_log" "launched st_s1_running = [emulator_argv]"
  by (simp_all add: st_s1_running_def)

lemma session_path_running [simp]:
  "session_path st_s1_running sid = [''data'', ''sessions'', sid]"
  by (simp add: session_path_def sessions_dir_def)




subsection \<open>Claims about the not-running check\<close>

lemma metadata_not_running_error:
  "load_metadata t d \<noteq> Inl SessionNotRunning"
  "save_metadata t d m \<noteq> Inl SessionNotRunning"
  using load_metadata_error [of t d SessionNotRunning]
    save_metadata_error [of t d m SessionNotRunning]
  by (auto simp: fs_error_def)

lemma save_snapshot_check:
  "fst (save_snapshot env st sid n) = Inl SessionNotRunning \<longleftrightarrow> map_of (ports st) sid = None"
proof (cases "map_of (ports st) sid")
  case None
  then show ?thesis by (simp add: save_snapshot_def get_serial_def)
next
  case (Some p)
  have "fst (save_snapshot env st sid n) \<noteq> Inl SessionNotRunning"
    by (auto simp: save_snapshot_def get_serial_def Some serial_nonempty
          metadata_not_running_error
          split: prod.splits sum.splits option.splits if_splits)
  then show ?thesis using Some by simp
qed

lemma delete_snapshot_check:
  "fst (delete_snapshot env st sid n) = Inl SessionNotRunning \<longleftrightarrow> map_of (ports st) sid = None"
proof (cases "map_of (ports st) sid")
  case None
  then show ?thesis by (simp add: delete_snapshot_def get_serial_def)
next
  case (Some p)
  have "fst (delete_snapshot env st sid n) \<noteq> Inl SessionNotRunning"
    by (auto simp: delete_snapshot_def get_serial_def Some serial_nonempty
          metadata_not_running_error
          split: prod.splits sum.splits option.splits if_splits)
  then show ?thesis using Some by simp
qed

lemma load_snapshot_check:
  "fst (load_snapshot env st sid n) = Inl SessionNotRunning \<longleftrightarrow> map_of (ports st) sid = None"
  by (auto simp: load_snapshot_def get_serial_def serial_nonempty split: option.splits prod.splits)

lemma install_apk_check:
  "fst (install_apk env st sid apk) = Inl SessionNotRunning \<longleftrightarrow> map_of (ports st) sid = None"
  by (auto simp: install_apk_def get_serial_def serial_nonempty split: option.splits prod.splits)


lemma save_snapshot_log:
  "map_of (ports st) sid = Some p \<Longrightarrow>
   log (snd (save_snapshot env st sid n))
     = log st @ [[str_path (adb_bin st), ''-s'', serial_of p, ''emu'', ''avd'', ''snapshot'', ''save'', n]]"
  by (simp add: save_snapshot_def get_serial_def serial_nonempty subprocess_run_def
        split: sum.split option.split)

lemma delete_snapshot_log:
  "map_of (ports st) sid = Some p \<Longrightarrow>
   log (snd (delete_snapshot env st sid n))
     = log st @ [[str_path (adb_bin st), ''-s'', serial_of p, ''emu'', ''avd'', ''snapshot'', ''delete'', n]]"
  by (simp add: delete_snapshot_def get_serial_def serial_nonempty subprocess_run_def
        split: sum.split option.split)

lemma load_snapshot_log:
  "map_of (ports st) sid = Some p \<Longrightarrow>
   log (snd (load_snapshot env st sid n))
     = log st @ [[str_path (adb_bin st), ''-s'', serial_of p, ''emu'', ''avd'', ''snapshot'', ''load'', n]]"
  by (simp add: load_snapshot_def get_serial_def serial_nonempty subprocess_run_def)

lemma record_package_log: "prefix (log st) (log (record_package env st sid apk))"
  by (simp add: record_package_def subprocess_run_def
        split: option.split sum.split)

lemma install_apk_log:
  "map_of (ports st) sid = Some p \<Longrightarrow>
   prefix (log st @ [[str_path (adb_bin st), ''-s'', serial_of p, ''install'', ''-r'', apk]])
     (log (snd (install_apk env st sid apk)))"
  using record_package_log
    [of "st\<lparr>log := log st @ [[str_path (adb_bin st), ''-s'', serial_of p, ''install'', ''-r'', apk]]\<rparr>"
        env sid apk]
  by (simp add: install_apk_def get_serial_def serial_nonempty subprocess_run_def)

text \<open>
  Claim C10. \<open>save_snapshot\<close>, \<open>load_snapshot\<close>, \<open>delete_snapshot\<close> and \<open>install_apk\<close>
  raise SessionNotRunning exactly when the session id has no entry in the port
  registry. The state of the process plays no part: for a session with a port whose
  process has exited, \<open>is_running\<close> is false and each of the four operations still
  sends its command to the device bridge.
\<close>

theorem not_running_check:
  "(fst (save_snapshot env st sid n) = Inl SessionNotRunning \<longleftrightarrow> map_of (ports st) sid = None)
   \<and> (fst (load_snapshot env st sid n) = Inl SessionNotRunning \<longleftrightarrow> map_of (ports st) sid = None)
   \<and> (fst (delete_snapshot env st sid n) = Inl SessionNotRunning \<longleftrightarrow> map_of (ports st) sid = None)
   \<and> (fst (install_apk env st sid apk) = Inl SessionNotRunning \<longleftrightarrow> map_of (ports st) sid = None)
   \<and> (map_of (ports st) sid = Some p \<and> map_of (processes st) sid = Some process
        \<and> process \<in> exited st \<longrightarrow>
          \<not> is_running st sid
        \<and> log (snd (save_snapshot env st sid n))
            = log st @ [[str_path (adb_bin st), ''-s'', serial_of p, ''emu'', ''avd'', ''snapshot'', ''save'', n]]
        \<and> log (snd (load_snapshot env st sid n))
            = log st @ [[str_path (adb_bin st), ''-s'', serial_of p, ''emu'', ''avd'', ''snapshot'', ''load'', n]]
        \<and> log (snd (delete_snapshot env st sid n))
            = log st @ [[str_path (adb_bin st), ''-s'', serial_of p, ''emu'', ''avd'', ''snapshot'', ''delete'', n]]
        \<and> prefix (log st @ [[str_path (adb_bin st), ''-s'', serial_of p, ''install'', ''-r'', apk]])
             (log (snd (install_apk env st sid apk))))"
  using save_snapshot_check [of env st sid n] load_snapshot_check [of env st sid n]
    delete_snapshot_check [of env st sid n] install_apk_check [of env st sid apk]
    save_snapshot_log [of st sid p env n] load_snapshot_log [of st sid p env n]
    delete_snapshot_log [of st sid p env n] install_apk_log [of st sid p apk env]
  by (simp add: is_running_def)

lemma st_s1_crashed_fields [simp]:
  "processes st_s1_crashed = [(''s1'', 0)]" "ports st_s1_crashed = [(''s1'', 5554)]"
  "fs st_s1_crashed = fs_s1_started" "data_dir st_s1_crashed = [''data'']"
  "sdk_path st_s1_crashed = [''sdk'']" "exited st_s1_crashed = {0}"
  "log st_s1_crashed = provision_log" "launched st_s1_crashed = [emulator_argv]"
  by (simp_all add: st_s1_crashed_def)

theorem not_running_check_witness:
  "map_of (ports st_s1_crashed) ''s1'' = Some 5554
   \<and> map_of (processes st_s1_crashed) ''s1'' = Some 0
   \<and> 0 \<in> exited st_s1_crashed
   \<and> \<not> is_running st_s1_crashed ''s1''
   \<and> fst (save_snapshot env_ok st_s1_crashed ''s1'' ''snap1'') \<noteq> Inl SessionNotRunning
   \<and> log (snd (save_snapshot env_ok st_s1_crashed ''s1'' ''snap1''))
       = provision_log
         @ [[''/sdk/platform-tools/adb'', ''-s'', ''emulator-5554'', ''emu'', ''avd'', ''snapshot'',
             ''save'', ''snap1'']]
   \<and> fst (save_snapshot env_ok st_s1 ''s1'' ''snap1'') = Inl SessionNotRunning"
  using not_running_check [of env_ok st_s1_crashed "''s1''" "''snap1''" "''app.apk''" 5554 0]
    not_running_check [of env_ok st_s1 "''s1''" "''snap1''" "''app.apk''" 5554 0]
  by (simp add: serial_5554 adb_bin_def str_path_def)

subsection \<open>Claims about snapshots\<close>

lemma save_snapshot_frame:
  "snd (save_snapshot env st sid n)
     = st\<lparr>fs := fs (snd (save_snapshot env st sid n)), log := log (snd (save_snapshot env st sid n))\<rparr>"
  by (simp add: save_snapshot_def subprocess_run_def split: option.split sum.split)

lemma delete_snapshot_frame:
  "snd (delete_snapshot env st sid n)
     = st\<lparr>fs := fs (snd (delete_snapshot env st sid n)), log := log (snd (delete_snapshot env st sid n))\<rparr>"
  by (simp add: delete_snapshot_def subprocess_run_def split: option.split sum.split)

lemma session_path_frame:
  "data_dir st' = data_dir st \<Longrightarrow> session_path st' sid = session_path st sid"
  by (simp add: session_path_def sessions_dir_def)

lemma save_snapshot_success:
  assumes ok: "save_snapshot env st sid n = (Inr True, st1)"
      and md: "load_metadata (fs st) (session_path st sid) = Inr (Some m)"
  shows "load_metadata (fs st1) (session_path st sid)
           = Inr (Some (m\<lparr>snapshots := (if n \<in> set (snapshots m) then snapshots m
                                         else snapshots m @ [n])\<rparr>))
       \<and> path_exists (fs st1) (session_path st sid)"
proof -
  let ?d = "session_path st sid"
  from ok obtain serial where ser: "get_serial st sid = Some serial" "serial \<noteq> []"
    by (auto simp: save_snapshot_def split: option.splits if_splits)
  define st0 where
    "st0 = st\<lparr>log := log st @ [[str_path (adb_bin st), ''-s'', serial, ''emu'', ''avd'',
                                 ''snapshot'', ''save'', n]]\<rparr>"
  have d0: "session_path st0 sid = ?d" by (simp add: st0_def session_path_def sessions_dir_def)
  have f0: "fs st0 = fs st" by (simp add: st0_def)
  have body: "(case get_session st0 sid of
                 None \<Rightarrow> (Inl TypeError, st0)
               | Some session_dir \<Rightarrow>
                   (case load_metadata (fs st0) session_dir of
                      Inl e \<Rightarrow> (Inl e, st0)
                    | Inr None \<Rightarrow> (Inr True, st0)
                    | Inr (Some m) \<Rightarrow>
                        if n \<notin> set (snapshots m) then
                          (case save_metadata (fs st0) session_dir
                                  (m\<lparr>snapshots := snapshots m @ [n]\<rparr>) of
                             Inl e \<Rightarrow> (Inl e, st0)
                           | Inr t \<Rightarrow> (Inr True, st0\<lparr>fs := t\<rparr>))
                        else (Inr True, st0))) = (Inr True, st1)"
    using ok ser unfolding st0_def
    by (simp add: save_snapshot_def subprocess_run_def split: if_splits)
  have ex: "path_exists (fs st) ?d"
  proof (rule ccontr)
    assume "\<not> path_exists (fs st) ?d"
    then have "get_session st0 sid = None" by (simp add: get_session_def d0 f0)
    then show False using body by simp
  qed
  then have gs: "get_session st0 sid = Some ?d" by (simp add: get_session_def d0 f0)
  show ?thesis
  proof (cases "n \<in> set (snapshots m)")
    case True
    then have "st1 = st0" using body gs md by (simp add: f0)
    then show ?thesis using True md ex by (simp add: f0)
  next
    case False
    then obtain t where sv: "save_metadata (fs st) ?d (m\<lparr>snapshots := snapshots m @ [n]\<rparr>) = Inr t"
      and st1: "st1 = st0\<lparr>fs := t\<rparr>"
      using body gs md by (auto simp: f0 split: sum.splits)
    have "t ?d = fs st ?d"
      using sv by (auto simp: save_metadata_def write_file_def split: if_splits)
    then show ?thesis using False save_then_load [OF sv] st1 ex by (simp add: path_exists_def)
  qed
qed


lemma delete_snapshot_success:
  assumes ok: "delete_snapshot env st sid n = (Inr True, st1)"
      and md: "load_metadata (fs st) (session_path st sid) = Inr (Some m)"
  shows "load_metadata (fs st1) (session_path st sid)
           = Inr (Some (m\<lparr>snapshots := remove1 n (snapshots m)\<rparr>))
       \<and> path_exists (fs st1) (session_path st sid)"
proof -
  let ?d = "session_path st sid"
  from ok obtain serial where ser: "get_serial st sid = Some serial" "serial \<noteq> []"
    by (auto simp: delete_snapshot_def split: option.splits if_splits)
  define st0 where
    "st0 = st\<lparr>log := log st @ [[str_path (adb_bin st), ''-s'', serial, ''emu'', ''avd'',
                                 ''snapshot'', ''delete'', n]]\<rparr>"
  have d0: "session_path st0 sid = ?d" by (simp add: st0_def session_path_def sessions_dir_def)
  have f0: "fs st0 = fs st" by (simp add: st0_def)
  have body: "(case get_session st0 sid of
                 None \<Rightarrow> (Inl TypeError, st0)
               | Some session_dir \<Rightarrow>
                   (case load_metadata (fs st0) session_dir of
                      Inl e \<Rightarrow> (Inl e, st0)
                    | Inr None \<Rightarrow> (Inr True, st0)
                    | Inr (Some m) \<Rightarrow>
                        if n \<in> set (snapshots m) then
                          (case save_metadata (fs st0) session_dir
                                  (m\<lparr>snapshots := remove1 n (snapshots m)\<rparr>) of
                             Inl e \<Rightarrow> (Inl e, st0)
                           | Inr t \<Rightarrow> (Inr True, st0\<lparr>fs := t\<rparr>))
                        else (Inr True, st0))) = (Inr True, st1)"
    using ok ser unfolding st0_def
    by (simp add: delete_snapshot_def subprocess_run_def split: if_splits)
  have ex: "path_exists (fs st) ?d"
  proof (rule ccontr)
    assume "\<not> path_exists (fs st) ?d"
    then have "get_session st0 sid = None" by (simp add: get_session_def d0 f0)
    then show False using body by simp
  qed
  then have gs: "get_session st0 sid = Some ?d" by (simp add: get_session_def d0 f0)
  show ?thesis
  proof (cases "n \<in> set (snapshots m)")
    case False
    then have "st1 = st0" using body gs md by (simp add: f0)
    then show ?thesis using False md ex by (simp add: f0 remove1_idem)
  next
    case True
    then obtain t where sv: "save_metadata (fs st) ?d (m\<lparr>snapshots := remove1 n (snapshots m)\<rparr>) = Inr t"
      and st1: "st1 = st0\<lparr>fs := t\<rparr>"
      using body gs md by (auto simp: f0 split: sum.splits)
    have "t ?d = fs st ?d"
      using sv by (auto simp: save_metadata_def write_file_def split: if_splits)
    then show ?thesis using save_then_load [OF sv] st1 ex by (simp add: path_exists_def)
  qed
qed

lemma save_snapshot_failure:
  assumes "map_of (ports st) sid = Some p"
      and "returncode (run env [str_path (adb_bin st), ''-s'', serial_of p, ''emu'', ''avd'',
                                ''snapshot'', ''save'', n]) \<noteq> 0"
  shows "save_snapshot env st sid n
           = (Inr False, st\<lparr>log := log st @ [[str_path (adb_bin st), ''-s'', serial_of p, ''emu'',
                                                ''avd'', ''snapshot'', ''save'', n]]\<rparr>)"
  using assms by (simp add: save_snapshot_def get_serial_def serial_nonempty subprocess_run_def)

lemma delete_snapshot_failure:
  assumes "map_of (ports st) sid = Some p"
      and "returncode (run env [str_path (adb_bin st), ''-s'', serial_of p, ''emu'', ''avd'',
                                ''snapshot'', ''delete'', n]) \<noteq> 0"
  shows "delete_snapshot env st sid n
           = (Inr False, st\<lparr>log := log st @ [[str_path (adb_bin st), ''-s'', serial_of p, ''emu'',
                                                ''avd'', ''snapshot'', ''delete'', n]]\<rparr>)"
  using assms by (simp add: delete_snapshot_def get_serial_def serial_nonempty subprocess_run_def)

lemma list_snapshots_running:
  assumes "map_of (ports st) sid = Some p"
  shows "list_snapshots env st sid
           = (Inr (parse_snapshot_list
                    (stdout (run env [str_path (adb_bin st), ''-s'', serial_of p, ''emu'', ''avd'',
                                      ''snapshot'', ''list'']))),
              st\<lparr>log := log st @ [[str_path (adb_bin st), ''-s'', serial_of p, ''emu'', ''avd'',
                                    ''snapshot'', ''list'']]\<rparr>)"
  using assms by (simp add: list_snapshots_def get_serial_def serial_nonempty subprocess_run_def)

lemma list_snapshots_stopped:
  assumes "map_of (ports st) sid = None"
      and "path_exists (fs st) (session_path st sid)"
      and "load_metadata (fs st) (session_path st sid) = Inr (Some m)"
  shows "list_snapshots env st sid = (Inr (snapshots m), st)"
  using assms by (simp add: list_snapshots_def get_serial_def stored_snapshots_def get_session_def)

lemma stop_then_list:
  assumes reg: "registry_ok st" and run: "map_of (processes st) sid \<noteq> None"
      and ex: "path_exists (fs st) (session_path st sid)"
      and md: "load_metadata (fs st) (session_path st sid) = Inr (Some m)"
      and sp: "stop env st sid sv = (r, st2)"
  shows "r = Inr True \<and> list_snapshots env' st2 sid = (Inr (snapshots m), st2)"
proof -
  from run obtain pr where pr: "map_of (processes st) sid = Some pr" by auto
  with reg obtain p where p: "map_of (ports st) sid = Some p" by (auto simp: registry_ok_def)
  from stop_registered [OF pr p, of env sv] sp have
    r: "r = Inr True" and
    q2: "ports st2 = AList.delete sid (ports st)" and
    f2: "fs st2 = fs st" and d2: "data_dir st2 = data_dir st"
    by auto
  have "map_of (ports st2) sid = None" by (simp add: q2 delete_conv')
  then show ?thesis
    using r list_snapshots_stopped [of st2 sid m env'] ex md
    by (simp add: f2 session_path_frame [OF d2])
qed


lemma load_s1_started:
  "load_metadata fs_s1_started [''data'', ''sessions'', ''s1''] = Inr (Some md_s1_started)"
  by (simp add: load_metadata_def fs_s1_started_def path_exists_def read_file_def from_dict_asdict)

lemma load_s1_snap:
  "load_metadata fs_s1_snap [''data'', ''sessions'', ''s1''] = Inr (Some md_s1_snap)"
  by (simp add: load_metadata_def fs_s1_snap_def path_exists_def read_file_def from_dict_asdict)

lemma get_session_running: "get_session (st_s1_running\<lparr>log := l\<rparr>) ''s1'' = Some [''data'', ''sessions'', ''s1'']"
  by (simp add: get_session_def path_exists_def session_path_def sessions_dir_def
        fs_s1_started_def fs_s1_def)

lemma save_md_started:
  "save_metadata fs_s1_started [''data'', ''sessions'', ''s1''] (md_s1_started\<lparr>snapshots := [n]\<rparr>)
     = Inr (fs_s1_started([''data'', ''sessions'', ''s1'', ''metadata.json'']
              \<mapsto> File (Document (asdict (md_s1_started\<lparr>snapshots := [n]\<rparr>)))))"
  using write_file_ok [OF fs_tree_s1_started, of "[''data'', ''sessions'', ''s1'', ''metadata.json'']"]
  by (simp add: save_metadata_def md_s1_started_def md_s1_def) (simp add: fs_s1_started_def fs_s1_def)

lemma save_snapshot_example:
  "save_snapshot env_ok st_s1_running ''s1'' ''snap1'' = (Inr True, st_s1_snap)"
proof -
  have rc: "returncode (run env_ok argv) = 0" for argv by (simp add: env_ok_def)
  have sn: "snapshots md_s1_started = []" by (simp add: md_s1_started_def md_s1_def)
  show ?thesis
    by (simp add: save_snapshot_def get_serial_def serial_5554 subprocess_run_def rc
          get_session_running load_s1_started sn)
       (simp add: sn save_md_started adb_bin_def str_path_def st_s1_snap_def fs_s1_snap_def
          md_s1_snap_def st_s1_running_def)
qed

lemma parse_id7: "parse_snapshot_list (CHR ''I'' # CHR ''D'' # CHR ''7'' # newline) = []"
  by (simp add: parse_snapshot_list_def parse_snapshot_line_def split_on_def newline_def
        strip_def is_space_def startswith_def)

lemma registry_ok_snap: "registry_ok st_s1_snap"
  by (simp add: registry_ok_def st_s1_snap_def)

lemma st_s1_snap_fields [simp]:
  "processes st_s1_snap = [(''s1'', 0)]" "ports st_s1_snap = [(''s1'', 5554)]"
  "fs st_s1_snap = fs_s1_snap" "data_dir st_s1_snap = [''data'']"
  "sdk_path st_s1_snap = [''sdk'']"
  by (simp_all add: st_s1_snap_def)

lemma get_session_snap: "get_session (st_s1_snap\<lparr>log := l\<rparr>) ''s1'' = Some [''data'', ''sessions'', ''s1'']"
  by (simp add: get_session_def path_exists_def session_path_def sessions_dir_def
        fs_s1_snap_def fs_s1_started_def fs_s1_def)

lemma fs_tree_s1_snap: "fs_tree fs_s1_snap"
  unfolding fs_s1_snap_def
  by (intro fs_tree_write fs_tree_s1_started) (simp_all add: fs_s1_started_def fs_s1_def)

lemma delete_snapshot_example:
  "fst (delete_snapshot env_ok st_s1_snap ''s1'' ''snap1'') = Inr True"
proof -
  have rc: "returncode (run env_ok argv) = 0" for argv by (simp add: env_ok_def)
  have sn: "snapshots md_s1_snap = [''snap1'']" by (simp add: md_s1_snap_def)
  have "\<exists>t. save_metadata fs_s1_snap [''data'', ''sessions'', ''s1''] m = Inr t" for m
    using save_metadata_succeeds [OF fs_tree_s1_snap, of "[''data'', ''sessions'', ''s1'']" m]
    by (simp add: is_dir_def fs_s1_snap_def fs_s1_started_def fs_s1_def)
  then obtain t where
    "save_metadata fs_s1_snap [''data'', ''sessions'', ''s1''] (md_s1_snap\<lparr>snapshots := []\<rparr>) = Inr t"
    by blast
  then show ?thesis
    by (simp add: delete_snapshot_def get_serial_def serial_5554 subprocess_run_def rc
          get_session_snap load_s1_snap sn)
qed

text \<open>
  Claim C7. After \<open>save_snapshot\<close> has succeeded on a running session, \<open>list_snapshots\<close>
  is to include the name. \<open>list_snapshots\<close> takes the first word of each line of the
  emulator's listing and skips the header of the table with
  \<^verbatim>\<open>not line.startswith("ID") and not line.startswith("-")\<close>, which also skips every
  snapshot whose name starts with \<^verbatim>\<open>ID\<close> or \<^verbatim>\<open>-\<close>. With the snapshot name \<^verbatim>\<open>ID7\<close> and an
  emulator that lists exactly that name, the save succeeds, the session is still
  running, the metadata records the name, and the list that follows is empty.
\<close>

theorem list_after_save_counterexample:
  "is_running st_s1_running ''s1''
   \<and> fst (save_snapshot env_listing st_s1_running ''s1'' ''ID7'') = Inr True
   \<and> is_running (snd (save_snapshot env_listing st_s1_running ''s1'' ''ID7'')) ''s1''
   \<and> fst (stored_snapshots (snd (save_snapshot env_listing st_s1_running ''s1'' ''ID7'')) ''s1'')
       = Inr [''ID7'']
   \<and> fst (list_snapshots env_listing (snd (save_snapshot env_listing st_s1_running ''s1'' ''ID7'')) ''s1'')
       = Inr []"
proof -
  have rc: "returncode (run env_listing argv) = 0" for argv by (simp add: env_listing_def)
  have out: "stdout (run env_listing [a, b, c, d, e, f, ''list'']) = ''ID7'' @ newline" for a b c d e f
    by (simp add: env_listing_def)
  have sn: "snapshots md_s1_started = []" by (simp add: md_s1_started_def md_s1_def)
  have sv: "save_snapshot env_listing st_s1_running ''s1'' ''ID7''
              = (Inr True,
                 st_s1_running
                   \<lparr>log := provision_log
                            @ [[''/sdk/platform-tools/adb'', ''-s'', ''emulator-5554'', ''emu'', ''avd'',
                                ''snapshot'', ''save'', ''ID7'']],
                    fs := fs_s1_started([''data'', ''sessions'', ''s1'', ''metadata.json'']
                            \<mapsto> File (Document (asdict (md_s1_started\<lparr>snapshots := [''ID7'']\<rparr>))))\<rparr>)"
    by (simp add: save_snapshot_def get_serial_def serial_5554 subprocess_run_def rc
          get_session_running load_s1_started sn)
       (simp add: sn save_md_started adb_bin_def str_path_def)
  have ld: "load_metadata
              (fs_s1_started([''data'', ''sessions'', ''s1'', ''metadata.json'']
                 \<mapsto> File (Document (asdict (md_s1_started\<lparr>snapshots := [''ID7'']\<rparr>)))))
              [''data'', ''sessions'', ''s1'']
            = Inr (Some (md_s1_started\<lparr>snapshots := [''ID7'']\<rparr>))"
    by (simp add: load_metadata_def path_exists_def read_file_def from_dict_asdict)
  have ex: "path_exists
              (fs_s1_started([''data'', ''sessions'', ''s1'', ''metadata.json'']
                 \<mapsto> File (Document (asdict (md_s1_started\<lparr>snapshots := [''ID7'']\<rparr>)))))
              [''data'', ''sessions'', ''s1'']"
    by (simp add: path_exists_def fs_s1_started_def fs_s1_def)
  have st: "fst (stored_snapshots (snd (save_snapshot env_listing st_s1_running ''s1'' ''ID7'')) ''s1'')
              = Inr [''ID7'']"
    by (simp add: sv stored_snapshots_def get_session_def session_path_def sessions_dir_def ex ld)
  have ls: "fst (list_snapshots env_listing (snd (save_snapshot env_listing st_s1_running ''s1'' ''ID7'')) ''s1'')
              = Inr []"
    by (simp add: sv list_snapshots_def get_serial_def serial_5554 subprocess_run_def out parse_id7)
  show ?thesis
    using st ls by (simp add: sv is_running_def)
qed


text \<open>
  The recorded list. For a running session whose metadata file loads as \<open>m\<close>:
  after \<open>save_snapshot\<close> has succeeded and the session has been stopped,
  \<open>list_snapshots\<close> returns the recorded list with the name appended if it was not in
  it; after \<open>delete_snapshot\<close> has succeeded and the session has been stopped, it
  returns the recorded list without the first occurrence of the name, which excludes
  the name when the recorded list has no duplicates; when the emulator command
  returns a non-zero code, the operation returns False and changes nothing but the
  list of commands run, so the metadata is written only after the command has
  succeeded; and while the session has a port, \<open>list_snapshots\<close> returns what it
  parses out of the emulator's listing.
\<close>

theorem snapshot_metadata_roundtrip:
  assumes reg: "registry_ok st"
      and run: "map_of (processes st) sid = Some process"
      and port: "map_of (ports st) sid = Some p"
      and md: "load_metadata (fs st) (session_path st sid) = Inr (Some m)"
  shows "(save_snapshot env st sid n = (Inr True, st1) \<and> stop env2 st1 sid sv = (r2, st2) \<longrightarrow>
            r2 = Inr True
          \<and> list_snapshots env3 st2 sid
              = (Inr (if n \<in> set (snapshots m) then snapshots m else snapshots m @ [n]), st2))
       \<and> (delete_snapshot env st sid n = (Inr True, st1') \<and> stop env2 st1' sid sv = (r2', st2') \<longrightarrow>
            r2' = Inr True
          \<and> list_snapshots env3 st2' sid = (Inr (remove1 n (snapshots m)), st2')
          \<and> (distinct (snapshots m) \<longrightarrow> n \<notin> set (remove1 n (snapshots m))))
       \<and> (returncode (run env [str_path (adb_bin st), ''-s'', serial_of p, ''emu'', ''avd'',
                                 ''snapshot'', ''save'', n]) \<noteq> 0 \<longrightarrow>
            save_snapshot env st sid n
              = (Inr False, st\<lparr>log := log st @ [[str_path (adb_bin st), ''-s'', serial_of p, ''emu'',
                                                   ''avd'', ''snapshot'', ''save'', n]]\<rparr>))
       \<and> (returncode (run env [str_path (adb_bin st), ''-s'', serial_of p, ''emu'', ''avd'',
                                 ''snapshot'', ''delete'', n]) \<noteq> 0 \<longrightarrow>
            delete_snapshot env st sid n
              = (Inr False, st\<lparr>log := log st @ [[str_path (adb_bin st), ''-s'', serial_of p, ''emu'',
                                                   ''avd'', ''snapshot'', ''delete'', n]]\<rparr>))
       \<and> list_snapshots env st sid
           = (Inr (parse_snapshot_list
                    (stdout (run env [str_path (adb_bin st), ''-s'', serial_of p, ''emu'', ''avd'',
                                      ''snapshot'', ''list'']))),
              st\<lparr>log := log st @ [[str_path (adb_bin st), ''-s'', serial_of p, ''emu'', ''avd'',
                                    ''snapshot'', ''list'']]\<rparr>)"
proof (intro conjI impI)
  assume a: "save_snapshot env st sid n = (Inr True, st1) \<and> stop env2 st1 sid sv = (r2, st2)"
  let ?m' = "m\<lparr>snapshots := (if n \<in> set (snapshots m) then snapshots m else snapshots m @ [n])\<rparr>"
  have fr: "st1 = st\<lparr>fs := fs st1, log := log st1\<rparr>"
    using a save_snapshot_frame [of env st sid n] by simp
  have reg1: "registry_ok st1" by (subst fr) (use reg in \<open>simp add: registry_ok_def\<close>)
  have run1: "map_of (processes st1) sid \<noteq> None" by (subst fr) (simp add: run)
  have sp1: "session_path st1 sid = session_path st sid"
    by (subst fr) (simp add: session_path_def sessions_dir_def)
  from save_snapshot_success [OF _ md, of env n st1] a
  have md1: "load_metadata (fs st1) (session_path st1 sid) = Inr (Some ?m')"
    and ex1: "path_exists (fs st1) (session_path st1 sid)"
    by (simp_all add: sp1)
  from stop_then_list [OF reg1 run1 ex1 md1, of env2 sv r2 st2 env3] a
  show "r2 = Inr True"
    and "list_snapshots env3 st2 sid
           = (Inr (if n \<in> set (snapshots m) then snapshots m else snapshots m @ [n]), st2)"
    by simp_all
next
  assume a: "delete_snapshot env st sid n = (Inr True, st1') \<and> stop env2 st1' sid sv = (r2', st2')"
  let ?m' = "m\<lparr>snapshots := remove1 n (snapshots m)\<rparr>"
  have fr: "st1' = st\<lparr>fs := fs st1', log := log st1'\<rparr>"
    using a delete_snapshot_frame [of env st sid n] by simp
  have reg1: "registry_ok st1'" by (subst fr) (use reg in \<open>simp add: registry_ok_def\<close>)
  have run1: "map_of (processes st1') sid \<noteq> None" by (subst fr) (simp add: run)
  have sp1: "session_path st1' sid = session_path st sid"
    by (subst fr) (simp add: session_path_def sessions_dir_def)
  from delete_snapshot_success [OF _ md, of env n st1'] a
  have md1: "load_metadata (fs st1') (session_path st1' sid) = Inr (Some ?m')"
    and ex1: "path_exists (fs st1') (session_path st1' sid)"
    by (simp_all add: sp1)
  from stop_then_list [OF reg1 run1 ex1 md1, of env2 sv r2' st2' env3] a
  show "r2' = Inr True"
    and "list_snapshots env3 st2' sid = (Inr (remove1 n (snapshots m)), st2')"
    by simp_all
  show "n \<notin> set (remove1 n (snapshots m))" if "distinct (snapshots m)"
    using that by simp
qed (simp_all add: save_snapshot_failure [OF port] delete_snapshot_failure [OF port]
       list_snapshots_running [OF port])


theorem snapshot_metadata_roundtrip_witness:
  "registry_ok st_s1_running
   \<and> map_of (processes st_s1_running) ''s1'' = Some 0
   \<and> map_of (ports st_s1_running) ''s1'' = Some 5554
   \<and> load_metadata (fs st_s1_running) (session_path st_s1_running ''s1'') = Inr (Some md_s1_started)
   \<and> save_snapshot env_ok st_s1_running ''s1'' ''snap1'' = (Inr True, st_s1_snap)
   \<and> fst (stop env_hang st_s1_snap ''s1'' True) = Inr True
   \<and> fst (list_snapshots env_listing (snd (stop env_hang st_s1_snap ''s1'' True)) ''s1'')
       = Inr [''snap1'']
   \<and> fst (save_snapshot env_hang st_s1_running ''s1'' ''snap2'') = Inr False
   \<and> fs (snd (save_snapshot env_hang st_s1_running ''s1'' ''snap2'')) = fs st_s1_running
   \<and> fst (delete_snapshot env_hang st_s1_running ''s1'' ''snap2'') = Inr False
   \<and> fs (snd (delete_snapshot env_hang st_s1_running ''s1'' ''snap2'')) = fs st_s1_running
   \<and> load_metadata (fs st_s1_snap) (session_path st_s1_snap ''s1'') = Inr (Some md_s1_snap)
   \<and> distinct (snapshots md_s1_snap)
   \<and> fst (delete_snapshot env_ok st_s1_snap ''s1'' ''snap1'') = Inr True
   \<and> fst (list_snapshots env_listing
             (snd (stop env_hang (snd (delete_snapshot env_ok st_s1_snap ''s1'' ''snap1'')) ''s1'' True))
             ''s1'')
       = Inr []"
proof -
  have h1: "map_of (processes st_s1_running) ''s1'' = Some 0" by simp
  have h2: "map_of (ports st_s1_running) ''s1'' = Some 5554" by simp
  have h3: "load_metadata (fs st_s1_running) (session_path st_s1_running ''s1'') = Inr (Some md_s1_started)"
    by (simp add: load_s1_started)
  have k1: "map_of (processes st_s1_snap) ''s1'' = Some 0" by simp
  have k2: "map_of (ports st_s1_snap) ''s1'' = Some 5554" by simp
  have k3: "load_metadata (fs st_s1_snap) (session_path st_s1_snap ''s1'') = Inr (Some md_s1_snap)"
    by (simp add: load_s1_snap session_path_def sessions_dir_def)
  have sn: "snapshots md_s1_started = []" "snapshots md_s1_snap = [''snap1'']"
    by (simp_all add: md_s1_snap_def md_s1_started_def md_s1_def)
  have rc: "returncode (run env_hang argv) \<noteq> 0" for argv by (simp add: env_hang_def)
  obtain r2 st2 where sp: "stop env_hang st_s1_snap ''s1'' True = (r2, st2)"
    by (cases "stop env_hang st_s1_snap ''s1'' True")
  obtain st1' where dl: "delete_snapshot env_ok st_s1_snap ''s1'' ''snap1'' = (Inr True, st1')"
    using delete_snapshot_example by (cases "delete_snapshot env_ok st_s1_snap ''s1'' ''snap1''") simp
  obtain r2' st2' where sp': "stop env_hang st1' ''s1'' True = (r2', st2')"
    by (cases "stop env_hang st1' ''s1'' True")
  show ?thesis
    using snapshot_metadata_roundtrip [OF registry_ok_running(1) h1 h2 h3,
        where env = env_ok and n = "''snap1''" and ?st1.0 = st_s1_snap and ?env2.0 = env_hang
          and sv = True and ?r2.0 = r2 and ?st2.0 = st2 and ?env3.0 = env_listing]
      snapshot_metadata_roundtrip [OF registry_ok_running(1) h1 h2 h3,
        where env = env_hang and n = "''snap2''"]
      snapshot_metadata_roundtrip [OF registry_ok_snap k1 k2 k3,
        where env = env_ok and n = "''snap1''" and st1' = st1' and ?env2.0 = env_hang
          and sv = True and r2' = r2' and st2' = st2' and ?env3.0 = env_listing]
      registry_ok_running(1) h1 h2 h3 k3 save_snapshot_example sp sn rc dl sp'
    by simp
qed

subsection \<open>The invariant of the reachable states\<close>

lemma os_mkdir_result:
  assumes "os_mkdir t p = Inr t'"
  shows "t' = t(p \<mapsto> Dir) \<and> t p = None \<and> t (butlast p) = Some Dir"
  using assms by (auto simp: os_mkdir_def split: if_splits)

lemma fs_ok_os_mkdir:
  assumes "fs_ok sd t" and "os_mkdir t p = Inr t'"
  shows "fs_ok sd t'"
proof -
  from os_mkdir_result [OF assms(2)] have
    t': "t' = t(p \<mapsto> Dir)" and fresh: "t p = None" and par: "t (butlast p) = Some Dir"
    by auto
  have tree: "fs_tree t" and sd: "t sd = Some Dir" and nf: "\<And>x. \<not> is_file t (sd @ [x])"
    using assms(1) by (auto simp: fs_ok_def)
  have ne: "p \<noteq> []" using tree fresh by (auto simp: fs_tree_def)
  have "fs_tree t'" unfolding t' using fs_tree_mkdir [OF tree par ne] .
  moreover have "t' sd = Some Dir" using sd by (simp add: t')
  moreover have "\<not> is_file t' (sd @ [x])" for x using nf [of x] by (simp add: t' is_file_def)
  ultimately show ?thesis by (simp add: fs_ok_def)
qed

lemma path_mkdir_preserves:
  assumes step: "\<And>t p t'. P t \<Longrightarrow> os_mkdir t p = Inr t' \<Longrightarrow> P t'"
  shows "P t \<Longrightarrow> path_mkdir t p parents exist_ok = Inr t' \<Longrightarrow> P t'"
proof (induction t p parents exist_ok arbitrary: t' rule: path_mkdir.induct)
  case (1 t p parents exist_ok)
  show ?case
  proof (cases "os_mkdir t p")
    case (Inr t0)
    then have "t' = t0" using "1.prems"(2) by (subst (asm) path_mkdir.simps) simp
    then show ?thesis using step [OF "1.prems"(1) Inr] by simp
  next
    case om: (Inl e0)
    show ?thesis
    proof (cases "e0 = FileNotFoundError")
      case False
      then have "t' = t" using "1.prems"(2) om
        by (subst (asm) path_mkdir.simps) (simp split: if_splits)
      then show ?thesis using "1.prems"(1) by simp
    next
      case fnf: True
      show ?thesis
      proof (cases "\<not> parents \<or> p = []")
        case True
        then show ?thesis using "1.prems"(2) om fnf
          by (subst (asm) path_mkdir.simps) auto
      next
        case rec: False
        show ?thesis
        proof (cases "path_mkdir t (butlast p) True True")
          case (Inl e')
          then show ?thesis using "1.prems"(2) om fnf rec
            by (subst (asm) path_mkdir.simps) simp
        next
          case (Inr t1)
          have ok1: "P t1" using "1.IH"(1) [OF om fnf rec "1.prems"(1) Inr] .
          have "path_mkdir t1 p False exist_ok = Inr t'" using "1.prems"(2) om fnf rec Inr
            by (subst (asm) path_mkdir.simps) simp
          then show ?thesis using "1.IH"(2) [OF om fnf rec Inr ok1] by simp
        qed
      qed
    qed
  qed
qed

lemma fs_ok_path_mkdir:
  "fs_ok sd t \<Longrightarrow> path_mkdir t p parents exist_ok = Inr t' \<Longrightarrow> fs_ok sd t'"
  using path_mkdir_preserves [of "fs_ok sd"] fs_ok_os_mkdir by blast

lemma fs_tree_path_mkdir:
  "fs_tree t \<Longrightarrow> path_mkdir t p parents exist_ok = Inr t' \<Longrightarrow> fs_tree t'"
proof (rule path_mkdir_preserves [of fs_tree])
  fix t p t'
  assume tree: "fs_tree t" and om: "os_mkdir t p = Inr t'"
  from os_mkdir_result [OF om] have
    t': "t' = t(p \<mapsto> Dir)" and fresh: "t p = None" and par: "t (butlast p) = Some Dir"
    by auto
  have "p \<noteq> []" using tree fresh by (auto simp: fs_tree_def)
  then show "fs_tree t'" unfolding t' using fs_tree_mkdir [OF tree par] by simp
qed

lemma os_mkdir_keeps_dir:
  "t d = Some Dir \<Longrightarrow> os_mkdir t p = Inr t' \<Longrightarrow> t' d = Some Dir"
  by (auto dest!: os_mkdir_result)

lemma os_mkdir_keeps_nofile:
  "\<not> is_file t q \<Longrightarrow> os_mkdir t p = Inr t' \<Longrightarrow> \<not> is_file t' q"
  by (auto simp: is_file_def dest!: os_mkdir_result split: if_splits)

lemma path_mkdir_keeps:
  assumes "path_mkdir t p parents exist_ok = Inr t'"
  shows "(t d = Some Dir \<longrightarrow> t' d = Some Dir) \<and> (\<not> is_file t q \<longrightarrow> \<not> is_file t' q)"
proof -
  have a: "\<And>u p u'. u d = Some Dir \<Longrightarrow> os_mkdir u p = Inr u' \<Longrightarrow> u' d = Some Dir"
    by (rule os_mkdir_keeps_dir)
  have b: "\<And>u p u'. \<not> is_file u q \<Longrightarrow> os_mkdir u p = Inr u' \<Longrightarrow> \<not> is_file u' q"
    by (rule os_mkdir_keeps_nofile)
  show ?thesis
    using path_mkdir_preserves [of "\<lambda>u. u d = Some Dir" t p parents exist_ok t'] a
      path_mkdir_preserves [of "\<lambda>u. \<not> is_file u q" t p parents exist_ok t'] b assms
    by blast
qed

lemma path_mkdir_exist_ok:
  "path_mkdir t p parents True = Inr t' \<Longrightarrow> t' p = Some Dir"
proof (induction t p parents True arbitrary: t' rule: path_mkdir.induct)
  case (1 t p parents)
  show ?case
  proof (cases "os_mkdir t p")
    case (Inr t0)
    then have "t' = t0" using "1.prems" by (subst (asm) path_mkdir.simps) simp
    then show ?thesis using os_mkdir_result [OF Inr] by simp
  next
    case om: (Inl e0)
    show ?thesis
    proof (cases "e0 = FileNotFoundError")
      case False
      then show ?thesis using "1.prems" om
        by (subst (asm) path_mkdir.simps) (auto simp: is_dir_def split: if_splits)
    next
      case fnf: True
      show ?thesis
      proof (cases "\<not> parents \<or> p = []")
        case True
        then show ?thesis using "1.prems" om fnf
          by (subst (asm) path_mkdir.simps) auto
      next
        case rec: False
        show ?thesis
        proof (cases "path_mkdir t (butlast p) True True")
          case (Inl e')
          then show ?thesis using "1.prems" om fnf rec
            by (subst (asm) path_mkdir.simps) simp
        next
          case (Inr t1)
          have "path_mkdir t1 p False True = Inr t'" using "1.prems" om fnf rec Inr
            by (subst (asm) path_mkdir.simps) simp
          then show ?thesis using "1.hyps"(2) [OF om fnf rec Inr] by simp
        qed
      qed
    qed
  qed
qed

lemma fs_ok_write_file:
  assumes "fs_ok sd t" and "write_file t p c = Inr t'" and "\<And>x. p \<noteq> sd @ [x]"
  shows "fs_ok sd t'"
proof -
  from assms(2) have
    t': "t' = t(p \<mapsto> File c)" and nd: "t p \<noteq> Some Dir" and par: "t (butlast p) = Some Dir"
    by (auto simp: write_file_def split: if_splits)
  have tree: "fs_tree t" and sd: "t sd = Some Dir" and nf: "\<And>x. \<not> is_file t (sd @ [x])"
    using assms(1) by (auto simp: fs_ok_def)
  have ne: "p \<noteq> []" using tree nd by (auto simp: fs_tree_def)
  have "fs_tree t'" unfolding t' using fs_tree_write [OF tree par nd ne] .
  moreover have "t' sd = Some Dir" using sd nd by (auto simp: t')
  moreover have "\<not> is_file t' (sd @ [x])" for x
    using nf [of x] assms(3) [of x] by (simp add: t' is_file_def)
  ultimately show ?thesis by (simp add: fs_ok_def)
qed

lemma fs_ok_save_metadata:
  assumes "fs_ok sd t" and "save_metadata t (sd @ [x]) m = Inr t'"
  shows "fs_ok sd t'"
  using fs_ok_write_file [OF assms(1), of "sd @ [x, ''metadata.json'']"] assms(2)
  by (simp add: save_metadata_def)

lemma fs_ok_shutil_copy:
  assumes "fs_ok sd t" and "shutil_copy t src (sd @ [x, y]) = Inr t'"
  shows "fs_ok sd t'"
proof -
  from assms(2) obtain c tgt where
    w: "write_file t tgt c = Inr t'" and tgt: "tgt = sd @ [x, y] \<or> (\<exists>z. tgt = sd @ [x, y] @ z)"
    by (auto simp: shutil_copy_def Let_def split: if_splits sum.splits)
  have "tgt \<noteq> sd @ [u]" for u using tgt by auto
  then show ?thesis using fs_ok_write_file [OF assms(1) w] by simp
qed

lemma fs_ok_rmtree:
  assumes "fs_ok sd t" and "rmtree t (sd @ [x]) = Inr t'"
  shows "fs_ok sd t'"
proof -
  from assms(2) have t': "t' = (\<lambda>q. if prefix (sd @ [x]) q then None else t q)"
    by (auto simp: rmtree_def split: option.splits node.splits)
  have tree: "fs_tree t" and sd: "t sd = Some Dir" and nf: "\<And>x. \<not> is_file t (sd @ [x])"
    using assms(1) by (auto simp: fs_ok_def)
  have "fs_tree t'" unfolding t' using fs_tree_rmtree [OF tree, of "sd @ [x]"] by simp
  moreover have "t' sd = Some Dir" using sd by (simp add: t')
  moreover have "\<not> is_file t' (sd @ [y])" for y using nf [of y] by (simp add: t' is_file_def)
  ultimately show ?thesis by (simp add: fs_ok_def)
qed


lemma sessions_dir_frame [simp]:
  "sessions_dir (st\<lparr>fs := t\<rparr>) = sessions_dir st"
  "sessions_dir (st\<lparr>log := l\<rparr>) = sessions_dir st"
  "sessions_dir (st\<lparr>ports := ps\<rparr>) = sessions_dir st"
  "sessions_dir (st\<lparr>processes := prs\<rparr>) = sessions_dir st"
  "sessions_dir (st\<lparr>launched := ls\<rparr>) = sessions_dir st"
  "sessions_dir (st\<lparr>exited := xs\<rparr>) = sessions_dir st"
  "sessions_dir (st\<lparr>killed := ks\<rparr>) = sessions_dir st"
  by (simp_all add: sessions_dir_def)

lemma fs_ok_copy_template:
  assumes "fs_ok (sessions_dir st) t"
      and "copy_template st t (sessions_dir st @ [x]) ft = Inr t'"
  shows "fs_ok (sessions_dir st) t'"
  using assms fs_ok_shutil_copy [of "sessions_dir st" t _ x "''userdata.img''" t']
  by (auto simp: copy_template_def Let_def split: option.splits if_splits)

lemma store_ok_create_session:
  assumes "store_ok st"
  shows "store_ok (snd (create_session env st sid config ft))"
proof -
  let ?sd = "sessions_dir st"
  let ?d = "session_path st sid"
  have d: "?d = ?sd @ [sid]" by (simp add: session_path_def)
  have ok: "fs_ok ?sd (fs st)" using assms by (simp add: store_ok_def)
  show ?thesis
  proof (cases "path_exists (fs st) ?d")
    case True
    then show ?thesis using assms by (simp add: create_session_def)
  next
    case nex: False
    show ?thesis
    proof (cases "path_mkdir (fs st) ?d True False")
      case (Inl e)
      then show ?thesis using assms nex by (simp add: create_session_def)
    next
      case m1: (Inr t1)
      have ok1: "fs_ok ?sd t1" using fs_ok_path_mkdir [OF ok m1] .
      show ?thesis
      proof (cases "path_mkdir t1 (?d @ [''snapshots'']) False False")
        case (Inl e)
        then show ?thesis using nex m1 ok1 by (simp add: create_session_def store_ok_def)
      next
        case m2: (Inr t2)
        have ok2: "fs_ok ?sd t2" using fs_ok_path_mkdir [OF ok1 m2] .
        show ?thesis
        proof (cases "save_metadata t2 ?d (new_metadata env sid (config_or_default config))")
          case (Inl e)
          then show ?thesis using nex m1 m2 ok2 by (simp add: create_session_def store_ok_def)
        next
          case m3: (Inr t3)
          have ok3: "fs_ok ?sd t3" using fs_ok_save_metadata [OF ok2] m3 d by simp
          show ?thesis
          proof (cases "copy_template st t3 ?d ft")
            case (Inl e)
            then show ?thesis using nex m1 m2 m3 ok3 by (simp add: create_session_def store_ok_def)
          next
            case m4: (Inr t4)
            have ok4: "fs_ok ?sd t4" using fs_ok_copy_template [OF ok3] m4 d by simp
            then show ?thesis using nex m1 m2 m3 m4 by (simp add: create_session_def store_ok_def)
          qed
        qed
      qed
    qed
  qed
qed


lemma registry_ok_frame:
  "processes st' = processes st \<Longrightarrow> ports st' = ports st \<Longrightarrow> registry_ok st' = registry_ok st"
  by (simp add: registry_ok_def)

lemma store_ok_frame:
  "fs st' = fs st \<Longrightarrow> data_dir st' = data_dir st \<Longrightarrow> store_ok st' = store_ok st"
  by (simp add: store_ok_def sessions_dir_def)

lemma registry_ok_update:
  "registry_ok st \<Longrightarrow>
   registry_ok (st\<lparr>ports := AList.update sid p (ports st),
                    processes := AList.update sid pr (processes st)\<rparr>)"
  by (simp add: registry_ok_def update_conv')

lemma state_ok_stop:
  assumes "state_ok st"
  shows "state_ok (snd (stop env st sid sv))"
  using assms
  by (auto simp: state_ok_def stop_def Let_def registry_ok_def delete_conv' store_ok_def
        split: option.splits)

lemma state_ok_create_session:
  assumes "state_ok st"
  shows "state_ok (snd (create_session env st sid config ft))"
proof -
  have fr: "snd (create_session env st sid config ft)
              = st\<lparr>fs := fs (snd (create_session env st sid config ft))\<rparr>"
    by (rule create_session_frame)
  have "registry_ok (snd (create_session env st sid config ft))"
    by (subst fr) (use assms in \<open>simp add: state_ok_def registry_ok_def\<close>)
  then show ?thesis
    using store_ok_create_session [of st env sid config ft] assms by (simp add: state_ok_def)
qed

lemma get_session_Some: "get_session st sid = Some d \<Longrightarrow> d = session_path st sid"
  by (auto simp: get_session_def Let_def split: if_splits)

lemma state_ok_delete_session:
  assumes "state_ok st"
  shows "state_ok (snd (delete_session env st sid force))"
proof -
  define pre where
    "pre = (if map_of (processes st) sid \<noteq> None then
              (if force then stop env st sid True else (Inl SessionRunning, st))
            else (Inr False, st))"
  obtain r1 st1 where pre: "pre = (r1, st1)" by (cases pre)
  have eq: "delete_session env st sid force =
              (case pre of
                 (Inl e, st1) \<Rightarrow> (Inl e, st1)
               | (Inr stopped, st1) \<Rightarrow>
                   (let session_dir = session_path st1 sid in
                    if path_exists (fs st1) session_dir then
                      (case rmtree (fs st1) session_dir of
                         Inl e \<Rightarrow> (Inl e, st1)
                       | Inr t \<Rightarrow> (Inr True, st1\<lparr>fs := t\<rparr>))
                    else (Inr False, st1)))"
    by (simp only: delete_session_def pre_def)
  have ok1: "state_ok st1"
    using pre assms state_ok_stop [OF assms, of env sid True]
    by (auto simp: pre_def split: if_splits)
  show ?thesis
  proof (cases r1)
    case (Inl e)
    then show ?thesis using pre ok1 by (simp add: eq)
  next
    case (Inr b)
    show ?thesis
    proof (cases "path_exists (fs st1) (session_path st1 sid)")
      case False
      then show ?thesis using pre Inr ok1 by (simp add: eq)
    next
      case True
      show ?thesis
      proof (cases "rmtree (fs st1) (session_path st1 sid)")
        case (Inl e)
        then show ?thesis using pre Inr ok1 True by (simp add: eq)
      next
        case rm: (Inr t)
        have "fs_ok (sessions_dir st1) t"
          using fs_ok_rmtree [of "sessions_dir st1" "fs st1" sid t] rm ok1
          by (simp add: state_ok_def store_ok_def session_path_def)
        then have "state_ok (st1\<lparr>fs := t\<rparr>)"
          using ok1 by (simp add: state_ok_def store_ok_def registry_ok_def)
        then show ?thesis using pre Inr True rm by (simp add: eq)
      qed
    qed
  qed
qed


lemma state_ok_log: "state_ok (st\<lparr>log := l\<rparr>) = state_ok st"
  by (simp add: state_ok_def registry_ok_def store_ok_def)

lemma state_ok_save_metadata:
  assumes "state_ok st" and "save_metadata (fs st) (session_path st sid) m = Inr t"
  shows "state_ok (st\<lparr>fs := t\<rparr>)"
  using assms fs_ok_save_metadata [of "sessions_dir st" "fs st" sid m t]
  by (simp add: state_ok_def store_ok_def registry_ok_def session_path_def)

lemma state_ok_start:
  assumes ok: "state_ok st"
  shows "state_ok (snd (start env st sid config wait_boot timeout))"
proof (cases "map_of (processes st) sid \<noteq> None")
  case True
  then show ?thesis using ok by (auto simp: start_def split: option.splits)
next
  case False
  then have nr: "map_of (processes st) sid = None" by simp
  define pre where
    "pre = (case get_session st sid of
              Some d \<Rightarrow> (Inr d, st)
            | None \<Rightarrow> create_session env st sid config None)"
  obtain r1 st1 where pre: "pre = (r1, st1)" by (cases pre)
  have ok1: "state_ok st1"
    using pre ok state_ok_create_session [OF ok, of env sid config None]
    by (auto simp: pre_def split: option.splits)
  have fr1: "st1 = st\<lparr>fs := fs st1\<rparr>"
    using pre create_session_frame [of env st sid config None]
    by (auto simp: pre_def split: option.splits)
  have sd1: "sessions_dir st1 = sessions_dir st"
    by (subst fr1) simp
  show ?thesis
  proof (cases r1)
    case (Inl e)
    then show ?thesis using nr pre ok1 by (simp add: start_def pre_def [symmetric])
  next
    case d: (Inr d)
    have dd: "d = session_path st sid"
      using pre d get_session_Some [of st sid d] create_session_steps [of env st sid config None d st1]
      by (auto simp: pre_def split: option.splits)
    show ?thesis
    proof (cases "load_metadata (fs st1) d")
      case (Inl e)
      then show ?thesis using nr pre d ok1 by (simp add: start_def pre_def [symmetric])
    next
      case md: (Inr metadata)
      obtain r2 st2 where cb: "create_base_avd env st1 (config_or_default config) = (r2, st2)"
        by (cases "create_base_avd env st1 (config_or_default config)")
      have fr2: "st2 = st1\<lparr>log := log st2\<rparr>"
        using cb create_base_avd_frame [of env st1 "config_or_default config"] by simp
      have ok2: "state_ok st2" by (subst fr2) (simp add: state_ok_log ok1)
      have sd2: "sessions_dir st2 = sessions_dir st"
        by (subst fr2) (simp add: sd1)
      show ?thesis
      proof (cases r2)
        case (Inl e)
        then show ?thesis using nr pre d md cb ok2 by (simp add: start_def pre_def [symmetric])
      next
        case r2: (Inr created)
        show ?thesis
        proof (cases "choose_port env st2 (config_or_default config)")
          case (Inl e)
          then show ?thesis using nr pre d md cb r2 ok2
            by (simp add: start_def pre_def [symmetric])
        next
          case cp: (Inr p)
          define st3 where "st3 = st2\<lparr>ports := AList.update sid p (ports st2)\<rparr>"
          define st4 where
            "st4 = st3\<lparr>launched := launched st3 @ [emulator_cmd st3 (config_or_default config) p d],
                       processes := AList.update sid (length (launched st3)) (processes st3)\<rparr>"
          have ok4: "state_ok st4"
            using ok2 by (simp add: st4_def st3_def state_ok_def registry_ok_def store_ok_def update_conv')
          have sp4: "session_path st4 sid = d"
            by (simp add: st4_def st3_def session_path_def dd sd2)
          have res: "snd (start env st sid config wait_boot timeout) =
                       (if wait_boot \<and> \<not> boot_completes env (serial_of p) timeout then
                          snd (stop env st4 sid True)
                        else
                          (case metadata of
                             None \<Rightarrow> st4
                           | Some m \<Rightarrow>
                               (case save_metadata (fs st4) d (m\<lparr>last_accessed := now env 2\<rparr>) of
                                  Inl e \<Rightarrow> st4
                                | Inr t \<Rightarrow> st4\<lparr>fs := t\<rparr>)))"
            using nr pre d md cb r2 cp
            by (simp add: start_def pre_def [symmetric] Let_def st3_def [symmetric] st4_def [symmetric]
                  split: prod.split sum.split option.split)
          show ?thesis
            unfolding res
            using state_ok_stop [OF ok4, of env sid True] ok4
              state_ok_save_metadata [OF ok4, of sid]
            by (auto simp: sp4 split: option.split sum.split)
        qed
      qed
    qed
  qed
qed


lemma state_ok_metadata_update:
  assumes ok: "state_ok st0"
  shows "state_ok (snd (case get_session st0 sid of
                          None \<Rightarrow> (Inl TypeError, st0)
                        | Some session_dir \<Rightarrow>
                            (case load_metadata (fs st0) session_dir of
                               Inl e \<Rightarrow> (Inl e, st0)
                             | Inr None \<Rightarrow> (Inr True, st0)
                             | Inr (Some m) \<Rightarrow>
                                 if c m then
                                   (case save_metadata (fs st0) session_dir (f m) of
                                      Inl e \<Rightarrow> (Inl e, st0)
                                    | Inr t \<Rightarrow> (Inr True, st0\<lparr>fs := t\<rparr>))
                                 else (Inr True, st0))))"
  using ok state_ok_save_metadata [OF ok, of sid]
  by (auto split: option.split sum.split dest: get_session_Some)

lemma state_ok_save_snapshot:
  assumes "state_ok st"
  shows "state_ok (snd (save_snapshot env st sid n))"
proof -
  have lg: "state_ok (st\<lparr>log := l\<rparr>)" for l using assms by (simp add: state_ok_log)
  show ?thesis
    unfolding save_snapshot_def subprocess_run_def
    using assms lg state_ok_metadata_update [OF lg, where sid = sid
        and c = "\<lambda>m. n \<notin> set (snapshots m)"
        and f = "\<lambda>m. m\<lparr>snapshots := snapshots m @ [n]\<rparr>"]
    by (simp split: option.split)
qed

lemma state_ok_delete_snapshot:
  assumes "state_ok st"
  shows "state_ok (snd (delete_snapshot env st sid n))"
proof -
  have lg: "state_ok (st\<lparr>log := l\<rparr>)" for l using assms by (simp add: state_ok_log)
  show ?thesis
    unfolding delete_snapshot_def subprocess_run_def
    using assms lg state_ok_metadata_update [OF lg, where sid = sid
        and c = "\<lambda>m. n \<in> set (snapshots m)"
        and f = "\<lambda>m. m\<lparr>snapshots := remove1 n (snapshots m)\<rparr>"]
    by (simp split: option.split)
qed

lemma state_ok_load_snapshot:
  assumes "state_ok st"
  shows "state_ok (snd (load_snapshot env st sid n))"
  using assms by (simp add: load_snapshot_def subprocess_run_def state_ok_log split: option.split)

lemma state_ok_list_snapshots:
  assumes "state_ok st"
  shows "state_ok (snd (list_snapshots env st sid))"
  using assms
  by (simp add: list_snapshots_def stored_snapshots_def subprocess_run_def state_ok_log
        split: option.split sum.split)

lemma state_ok_record_package:
  assumes "state_ok st"
  shows "state_ok (record_package env st sid apk)"
proof -
  have lg: "state_ok (st\<lparr>log := l\<rparr>)" for l using assms by (simp add: state_ok_log)
  show ?thesis
    unfolding record_package_def subprocess_run_def
    using assms lg state_ok_save_metadata [OF lg, where sid = sid]
    by (auto split: option.split sum.split dest: get_session_Some)
qed

lemma state_ok_install_apk:
  assumes "state_ok st"
  shows "state_ok (snd (install_apk env st sid apk))"
proof -
  have lg: "state_ok (st\<lparr>log := l\<rparr>)" for l using assms by (simp add: state_ok_log)
  show ?thesis
    using assms lg state_ok_record_package [OF lg]
    by (simp add: install_apk_def subprocess_run_def split: option.split)
qed


lemma state_ok_init:
  assumes init: "init_manager t dd sdk = Inr st"
      and tree: "fs_tree t"
      and nofile: "\<And>x. \<not> is_file t (dd @ [''sessions'', x])"
  shows "state_ok st"
proof -
  from init obtain t1 t2 t3 where
    m1: "path_mkdir t (dd @ [''avds'']) True True = Inr t1" and
    m2: "path_mkdir t1 (dd @ [''sessions'']) True True = Inr t2" and
    m3: "path_mkdir t2 (dd @ [''shared'']) True True = Inr t3" and
    st: "st = \<lparr>data_dir = dd, sdk_path = sdk, processes = [], ports = [], fs = t3,
               log = [], launched = [], exited = {}, killed = {}\<rparr>"
    by (auto simp: init_manager_def split: sum.splits)
  have tree3: "fs_tree t3"
    using fs_tree_path_mkdir [OF fs_tree_path_mkdir [OF fs_tree_path_mkdir [OF tree m1] m2] m3] .
  have "t2 (dd @ [''sessions'']) = Some Dir" using path_mkdir_exist_ok [OF m2] .
  then have sd: "t3 (dd @ [''sessions'']) = Some Dir" using path_mkdir_keeps [OF m3] by blast
  have nf: "\<not> is_file t3 ((dd @ [''sessions'']) @ [x])" for x
    using nofile [of x] path_mkdir_keeps [OF m1] path_mkdir_keeps [OF m2] path_mkdir_keeps [OF m3]
    by simp
  show ?thesis
    using tree3 sd nf
    by (simp add: st state_ok_def registry_ok_def store_ok_def fs_ok_def sessions_dir_def)
qed


lemma state_ok_exit: "state_ok (st\<lparr>exited := xs\<rparr>) = state_ok st"
  by (simp add: state_ok_def registry_ok_def store_ok_def)

lemma reachable_state_ok: "reachable st \<Longrightarrow> state_ok st"
proof (induction rule: reachable.induct)
  case (made t dd sdk st)
  then show ?case using state_ok_init [of t dd sdk st] by simp
qed (simp_all add: state_ok_create_session state_ok_delete_session state_ok_start state_ok_stop
       state_ok_save_snapshot state_ok_load_snapshot state_ok_list_snapshots
       state_ok_delete_snapshot state_ok_install_apk state_ok_exit)

lemma reachable_hypotheses:
  assumes "reachable st"
  shows "registry_ok st" and "fs_tree (fs st)" and "is_dir (fs st) (sessions_dir st)"
    and "\<not> is_file (fs st) (session_path st sid)"
  using reachable_state_ok [OF assms]
  by (simp_all add: state_ok_def store_ok_def fs_ok_def is_dir_def session_path_def)

lemma reachable_examples:
  "reachable st_init" "reachable st_s1" "reachable st_s1_running" "reachable st_s1_crashed"
  "reachable st_s1_timeout" "reachable st_s1_snap"
proof -
  have nf: "\<forall>x. \<not> is_file [[] \<mapsto> Dir] ([''data''] @ [''sessions'', x])"
    by (simp add: is_file_def)
  show 0: "reachable st_init"
    using reachable.made [OF init_example fs_tree_root nf] .
  show 1: "reachable st_s1"
    using reachable.created [OF 0, of env_ok "''s1''" None None] by (simp add: create_example)
  show 2: "reachable st_s1_running"
    using reachable.started [OF 1, of env_ok "''s1''" "Some cfg_5554" True 120]
    by (simp add: start_example)
  show "reachable st_s1_crashed"
    using reachable.process_exit [OF 2, of 0] by (simp add: st_s1_crashed_def)
  show "reachable st_s1_timeout"
    using reachable.started [OF 1, of env_no_boot "''s1''" "Some cfg_5554" True 120]
    by (simp add: start_timeout_example)
  show "reachable st_s1_snap"
    using reachable.snapshot_saved [OF 2, of env_ok "''s1''" "''snap1''"]
    by (simp add: save_snapshot_example)
qed

end
